theory Spec2Isabelle
  imports Complex_Main "HOL-Library.Product_Lexorder" "HOL-Library.Multiset" "HOL-Library.Log_Nat"
begin

section \<open>Data model of backend/main.py\<close>

text \<open>
  Amounts are the \<open>REAL\<close> columns and Python floats of the source. In the store and the
  engines they are exact rationals: the finite amounts, with exact sums and quotients. What
  a Python float has beyond that, rounding to 53 bits and the values \<open>inf\<close>, \<open>-inf\<close> and
  \<open>nan\<close>, is modelled in the section on binary64 arithmetic, for the places where a
  statement depends on it. For a request whose amount is not finite the store behaves
  differently: SQLite turns \<open>nan\<close> into NULL, which \<open>amount REAL NOT NULL\<close> refuses,
  so that INSERT raises and stores nothing; \<open>inf\<close> and \<open>-inf\<close> are stored as they are.

  A calendar date (Python \<open>date\<close>, stored by sqlite3 as the ISO text \<open>YYYY-MM-DD\<close>) is
  the triple (year, month, day); the lexicographic order of the triple is the order of
  the ISO text, which is what \<open>ORDER BY date\<close> and \<open>date >= ...\<close> compare.
  \<open>created_at\<close> (\<open>CURRENT_TIMESTAMP\<close>, a text with a resolution of one second) is a
  number of seconds.
\<close>

type_synonym date = "nat \<times> nat \<times> nat"

definition date_year :: "date \<Rightarrow> nat" where
  "date_year d = fst d"

definition date_month :: "date \<Rightarrow> nat" where
  "date_month d = fst (snd d)"

datatype TransactionType = INCOME | EXPENSE

text \<open>\<open>transaction.type.value\<close>: the string of the enum member.\<close>

fun type_value :: "TransactionType \<Rightarrow> string" where
  "type_value INCOME = ''income''"
| "type_value EXPENSE = ''expense''"

text \<open>The pydantic model \<open>Transaction\<close> (the request body).\<close>

record Transaction =
  t_type :: TransactionType
  t_category :: string
  t_amount :: rat
  t_description :: "string option"
  t_date :: date

text \<open>The pydantic model \<open>BudgetGoal\<close>.\<close>

record BudgetGoal =
  g_category :: string
  g_amount :: rat
  g_month :: int
  g_year :: int

text \<open>A row of table \<open>transactions\<close> (also the dict \<open>dict(row)\<close> made of it).\<close>

record tx_row =
  tx_id :: nat
  tx_user_id :: string
  tx_type :: string
  tx_category :: string
  tx_amount :: rat
  tx_description :: "string option"
  tx_date :: date
  tx_created_at :: nat

text \<open>A row of table \<open>budget_goals\<close>.\<close>

record goal_row =
  bg_id :: nat
  bg_user_id :: string
  bg_category :: string
  bg_amount :: rat
  bg_month :: int
  bg_year :: int

text \<open>
  The exceptions of the modelled paths: Python's division by zero, the sqlite3 module's
  \<open>OverflowError\<close> for an integer parameter outside the 64-bit range, and
  \<open>HTTPException(status_code=...)\<close>.
\<close>

datatype error = ZeroDivisionError | OverflowError | HTTPException nat

definition py_div :: "rat \<Rightarrow> rat \<Rightarrow> error + rat" where
  "py_div a b = (if b = 0 then Inl ZeroDivisionError else Inr (a / b))"

subsection \<open>Python dictionaries\<close>

text \<open>
  A \<open>dict\<close> is a list of (key, value) pairs in insertion order; an assignment to a key
  already present replaces its value where it stands, a new key goes to the end.
\<close>

type_synonym ('k, 'v) dict = "('k \<times> 'v) list"

fun dict_get :: "('k, 'v) dict \<Rightarrow> 'k \<Rightarrow> 'v \<Rightarrow> 'v" where
  "dict_get [] k dflt = dflt"
| "dict_get ((k', v) # d) k dflt = (if k' = k then v else dict_get d k dflt)"

fun dict_set :: "('k, 'v) dict \<Rightarrow> 'k \<Rightarrow> 'v \<Rightarrow> ('k, 'v) dict" where
  "dict_set [] k v = [(k, v)]"
| "dict_set ((k', v') # d) k v = (if k' = k then (k, v) # d else (k', v') # dict_set d k v)"

definition dict_values :: "('k, 'v) dict \<Rightarrow> 'v list" where
  "dict_values d = map snd d"

definition dict_keys :: "('k, 'v) dict \<Rightarrow> 'k list" where
  "dict_keys d = map fst d"

section \<open>Summary engine: calculate_financial_summary\<close>

record FinancialSummary =
  total_income :: rat
  total_expenses :: rat
  net_balance :: rat
  expenses_by_category :: "(string, rat) dict"
  savings_rate :: rat

text \<open>The loop \<open>for t in transactions: if t['type'] == 'expense': ...\<close>.\<close>

fun expenses_loop :: "(string, rat) dict \<Rightarrow> tx_row list \<Rightarrow> (string, rat) dict" where
  "expenses_loop d [] = d"
| "expenses_loop d (t # ts) =
     (if tx_type t = ''expense''
      then expenses_loop (dict_set d (tx_category t) (dict_get d (tx_category t) 0 + tx_amount t)) ts
      else expenses_loop d ts)"

definition sum_income :: "tx_row list \<Rightarrow> rat" where
  "sum_income ts = sum_list (map tx_amount (filter (\<lambda>t. tx_type t = ''income'') ts))"

definition sum_expenses :: "tx_row list \<Rightarrow> rat" where
  "sum_expenses ts = sum_list (map tx_amount (filter (\<lambda>t. tx_type t = ''expense'') ts))"

definition calculate_financial_summary :: "tx_row list \<Rightarrow> error + FinancialSummary" where
  "calculate_financial_summary ts =
     (let ti = sum_income ts;
          te = sum_expenses ts;
          nb = ti - te;
          ebc = expenses_loop [] ts
      in if ti > 0
         then (case py_div nb ti of
                 Inl e \<Rightarrow> Inl e
               | Inr q \<Rightarrow> Inr \<lparr>total_income = ti, total_expenses = te, net_balance = nb,
                               expenses_by_category = ebc, savings_rate = q * 100\<rparr>)
         else Inr \<lparr>total_income = ti, total_expenses = te, net_balance = nb,
                   expenses_by_category = ebc, savings_rate = 0\<rparr>)"



section \<open>SQL building blocks\<close>

text \<open>
  A Python \<open>int\<close> bound to a parameter of a statement must fit SQLite's 64-bit integer;
  otherwise \<open>cursor.execute\<close> raises \<open>OverflowError\<close> before the statement runs. The
  listing and the deletion, whose integer comes straight from the request, have this
  branch. \<open>set_budget_goal\<close> and \<open>get_budget_goals\<close> are modelled for months and years
  within the range (outside it the call raises and stores nothing). Rowids are unbounded:
  \<open>SQLITE_FULL\<close>, once rowid 9223372036854775807 was used, and failures of the file system
  are outside the model.
\<close>

definition sql_int :: "int \<Rightarrow> bool" where
  "sql_int n = (- 9223372036854775808 \<le> n \<and> n \<le> 9223372036854775807)"

text \<open>
  \<open>ORDER BY\<close>: a stable insertion sort. \<open>ahead a b\<close> says that \<open>a\<close> may stand before
  \<open>b\<close> (its sort key is not behind that of \<open>b\<close>); rows with equal keys keep the order in
  which the scan produced them, which is what SQLite does for these queries (SQL itself
  leaves the order of such rows open).
\<close>

fun insert_by :: "('a \<Rightarrow> 'a \<Rightarrow> bool) \<Rightarrow> 'a \<Rightarrow> 'a list \<Rightarrow> 'a list" where
  "insert_by ahead r [] = [r]"
| "insert_by ahead r (x # xs) = (if ahead r x then r # x # xs else x # insert_by ahead r xs)"

definition order_by :: "('a \<Rightarrow> 'a \<Rightarrow> bool) \<Rightarrow> 'a list \<Rightarrow> 'a list" where
  "order_by ahead rows = foldr (insert_by ahead) rows []"

text \<open>\<open>LIMIT n\<close>: the first \<open>n\<close> rows; a negative \<open>n\<close> means no limit.\<close>

definition sql_limit :: "int \<Rightarrow> 'a list \<Rightarrow> 'a list" where
  "sql_limit n rows = (if n < 0 then rows else take (nat n) rows)"

text \<open>
  \<open>GROUP BY\<close>: the distinct keys in the order of their first row, each with its rows in
  scan order. Every group is non-empty. SQL fixes no order of the groups (SQLite emits them
  sorted by key); where the source adds an \<open>ORDER BY\<close> the model sorts, and no statement
  below depends on the order of groups otherwise.
\<close>

fun group_keys :: "'k list \<Rightarrow> 'k list" where
  "group_keys [] = []"
| "group_keys (k # ks) = k # filter (\<lambda>x. x \<noteq> k) (group_keys ks)"

definition group_by :: "('r \<Rightarrow> 'k) \<Rightarrow> 'r list \<Rightarrow> ('k \<times> 'r list) list" where
  "group_by key rows =
     map (\<lambda>k. (k, filter (\<lambda>r. key r = k) rows)) (group_keys (map key rows))"

text \<open>\<open>AVG\<close> over the rows of a group (never empty, so SQL's NULL does not arise).\<close>

definition sql_avg :: "rat list \<Rightarrow> rat" where
  "sql_avg xs = sum_list xs / of_nat (length xs)"

section \<open>Ledger store\<close>

text \<open>
  The database file: the two tables, rows in rowid order, and for each table the entry of
  \<open>sqlite_sequence\<close> that \<open>AUTOINCREMENT\<close> keeps (the largest rowid ever used).
\<close>

record store =
  transactions :: "tx_row list"
  transactions_seq :: nat
  budget_goals :: "goal_row list"
  budget_goals_seq :: nat

text \<open>\<open>init_database\<close> on a new file: both tables exist and are empty.\<close>

definition init_database :: store where
  "init_database = \<lparr>transactions = [], transactions_seq = 0, budget_goals = [], budget_goals_seq = 0\<rparr>"

definition default_user :: string where
  "default_user = ''default_user''"

text \<open>
  The rowid \<open>AUTOINCREMENT\<close> gives a new row: one more than the largest rowid that is in
  the table or was ever recorded in \<open>sqlite_sequence\<close>.
\<close>

definition next_rowid :: "nat \<Rightarrow> nat list \<Rightarrow> nat" where
  "next_rowid seq ids = fold max ids seq + 1"

text \<open>
  \<open>create_transaction\<close>: the INSERT, the commit, and \<open>cursor.lastrowid\<close>. \<open>now\<close> is the
  value of \<open>CURRENT_TIMESTAMP\<close> at the insert. Nothing checks \<open>transaction.amount\<close>;
  the amounts of this type are the finite ones (for \<open>nan\<close> the INSERT raises, see above).
\<close>

definition create_transaction :: "nat \<Rightarrow> Transaction \<Rightarrow> string \<Rightarrow> store \<Rightarrow> nat \<times> store" where
  "create_transaction now transaction user_id db =
     (let rowid = next_rowid (transactions_seq db) (map tx_id (transactions db));
          row = \<lparr>tx_id = rowid, tx_user_id = user_id, tx_type = type_value (t_type transaction),
                 tx_category = t_category transaction, tx_amount = t_amount transaction,
                 tx_description = t_description transaction, tx_date = t_date transaction,
                 tx_created_at = now\<rparr>
      in (rowid, db\<lparr>transactions := transactions db @ [row], transactions_seq := rowid\<rparr>))"

text \<open>\<open>ORDER BY date DESC, created_at DESC\<close>.\<close>

definition tx_sort_key :: "tx_row \<Rightarrow> date \<times> nat" where
  "tx_sort_key r = (tx_date r, tx_created_at r)"

definition newest_first :: "tx_row \<Rightarrow> tx_row \<Rightarrow> bool" where
  "newest_first a b = (tx_sort_key b \<le> tx_sort_key a)"

text \<open>The rows of the SELECT before \<open>LIMIT\<close> cuts them.\<close>

definition ordered_rows :: "string \<Rightarrow> store \<Rightarrow> tx_row list" where
  "ordered_rows user_id db =
     order_by newest_first (filter (\<lambda>r. tx_user_id r = user_id) (transactions db))"

text \<open>\<open>get_transactions\<close>; binding a \<open>limit\<close> outside the 64-bit range raises.\<close>

definition get_transactions :: "string \<Rightarrow> int \<Rightarrow> store \<Rightarrow> error + tx_row list" where
  "get_transactions user_id limit db =
     (if sql_int limit then Inr (sql_limit limit (ordered_rows user_id db))
      else Inl OverflowError)"

text \<open>The call that leaves \<open>limit\<close> to its default.\<close>

definition get_transactions_default :: "string \<Rightarrow> store \<Rightarrow> error + tx_row list" where
  "get_transactions_default user_id db = get_transactions user_id 100 db"

text \<open>Python's truth value of an \<open>Optional[int]\<close>: \<open>None\<close> and \<open>0\<close> are false.\<close>

fun truthy :: "int option \<Rightarrow> bool" where
  "truthy None = False"
| "truthy (Some n) = (n \<noteq> 0)"

text \<open>
  \<open>get_budget_goals\<close>. The rows are listed in table order. SQL fixes no order for a SELECT
  without ORDER BY (SQLite answers this one through the index of the UNIQUE constraint, in
  category order); no statement below depends on the order of these rows.
\<close>

definition get_budget_goals :: "string \<Rightarrow> int option \<Rightarrow> int option \<Rightarrow> store \<Rightarrow> goal_row list" where
  "get_budget_goals user_id month year db =
     (if truthy month \<and> truthy year
      then filter (\<lambda>g. bg_user_id g = user_id \<and> Some (bg_month g) = month \<and> Some (bg_year g) = year)
             (budget_goals db)
      else filter (\<lambda>g. bg_user_id g = user_id) (budget_goals db))"

text \<open>The columns of \<open>UNIQUE(user_id, category, month, year)\<close>.\<close>

definition goal_key :: "goal_row \<Rightarrow> string \<times> string \<times> int \<times> int" where
  "goal_key g = (bg_user_id g, bg_category g, bg_month g, bg_year g)"

text \<open>
  \<open>set_budget_goal\<close>: \<open>INSERT OR REPLACE\<close> takes a new rowid, deletes every row that
  collides with the new one on the UNIQUE columns, and inserts the new row.
\<close>

definition set_budget_goal :: "BudgetGoal \<Rightarrow> string \<Rightarrow> store \<Rightarrow> store" where
  "set_budget_goal budget_goal user_id db =
     (let rowid = next_rowid (budget_goals_seq db) (map bg_id (budget_goals db));
          row = \<lparr>bg_id = rowid, bg_user_id = user_id, bg_category = g_category budget_goal,
                 bg_amount = g_amount budget_goal, bg_month = g_month budget_goal,
                 bg_year = g_year budget_goal\<rparr>;
          kept = filter (\<lambda>g. goal_key g \<noteq> goal_key row) (budget_goals db)
      in db\<lparr>budget_goals := kept @ [row], budget_goals_seq := rowid\<rparr>)"

text \<open>
  The endpoint \<open>delete_transaction\<close>. A \<open>transaction_id\<close> outside the 64-bit range
  makes \<open>cursor.execute\<close> raise \<open>OverflowError\<close>, which \<open>except Exception\<close> turns into
  \<open>HTTPException(500)\<close>. Otherwise \<open>rowcount\<close> is the number of rows the DELETE removed;
  when it is 0 the exception leaves the \<open>with\<close> block before the commit and the
  connection is closed, so the file stays as it was.
\<close>

definition delete_transaction :: "int \<Rightarrow> store \<Rightarrow> (error + string) \<times> store" where
  "delete_transaction transaction_id db =
     (if \<not> sql_int transaction_id then (Inl (HTTPException 500), db)
      else let remaining = filter (\<lambda>r. int (tx_id r) \<noteq> transaction_id) (transactions db);
               rowcount = length (transactions db) - length remaining
           in if rowcount = 0 then (Inl (HTTPException 404), db)
              else (Inr ''Transaction deleted successfully'', db\<lparr>transactions := remaining\<rparr>))"

section \<open>Trend engine: get_spending_trends\<close>

text \<open>
  The three queries read \<open>transactions\<close> with no condition on \<open>user_id\<close>. SQLite's clock
  and calendar arithmetic are parameters: \<open>six_months_ago\<close> is the value of
  \<open>date('now', '-6 months')\<close>, \<open>thirty_days_ago\<close> that of \<open>date('now', '-30 days')\<close>, and
  \<open>day_of_week d\<close> that of \<open>strftime('%w', d)\<close>. The key \<open>strftime('%Y-%m', date)\<close> is the
  pair (year, month), whose order is that of the text.
\<close>

record monthly_trend =
  mt_month :: "nat \<times> nat"
  mt_income :: rat
  mt_expenses :: rat

record category_trend =
  ct_category :: string
  ct_total_amount :: rat
  ct_transaction_count :: nat
  ct_avg_amount :: rat

record daily_pattern =
  dp_day_of_week :: nat
  dp_avg_spending :: rat

record spending_trends =
  monthly_trends :: "monthly_trend list"
  category_trends :: "category_trend list"
  daily_patterns :: "daily_pattern list"

definition year_month :: "tx_row \<Rightarrow> nat \<times> nat" where
  "year_month r = (date_year (tx_date r), date_month (tx_date r))"

definition monthly_query :: "date \<Rightarrow> tx_row list \<Rightarrow> monthly_trend list" where
  "monthly_query six_months_ago rows =
     order_by (\<lambda>a b. mt_month a \<le> mt_month b)
       (map (\<lambda>(m, grp).
               \<lparr>mt_month = m,
                mt_income = sum_list (map (\<lambda>r. if tx_type r = ''income'' then tx_amount r else 0) grp),
                mt_expenses = sum_list (map (\<lambda>r. if tx_type r = ''expense'' then tx_amount r else 0) grp)\<rparr>)
          (group_by year_month (filter (\<lambda>r. six_months_ago \<le> tx_date r) rows)))"

definition recent_expenses :: "date \<Rightarrow> tx_row list \<Rightarrow> tx_row list" where
  "recent_expenses thirty_days_ago rows =
     filter (\<lambda>r. tx_type r = ''expense'' \<and> thirty_days_ago \<le> tx_date r) rows"

definition category_query :: "date \<Rightarrow> tx_row list \<Rightarrow> category_trend list" where
  "category_query thirty_days_ago rows =
     order_by (\<lambda>a b. ct_total_amount b \<le> ct_total_amount a)
       (map (\<lambda>(c, grp).
               \<lparr>ct_category = c,
                ct_total_amount = sum_list (map tx_amount grp),
                ct_transaction_count = length grp,
                ct_avg_amount = sql_avg (map tx_amount grp)\<rparr>)
          (group_by tx_category (recent_expenses thirty_days_ago rows)))"

definition daily_query :: "date \<Rightarrow> (date \<Rightarrow> nat) \<Rightarrow> tx_row list \<Rightarrow> daily_pattern list" where
  "daily_query thirty_days_ago day_of_week rows =
     order_by (\<lambda>a b. dp_day_of_week a \<le> dp_day_of_week b)
       (map (\<lambda>(w, grp). \<lparr>dp_day_of_week = w, dp_avg_spending = sql_avg (map tx_amount grp)\<rparr>)
          (group_by (\<lambda>r. day_of_week (tx_date r)) (recent_expenses thirty_days_ago rows)))"

definition get_spending_trends :: "date \<Rightarrow> date \<Rightarrow> (date \<Rightarrow> nat) \<Rightarrow> store \<Rightarrow> spending_trends" where
  "get_spending_trends six_months_ago thirty_days_ago day_of_week db =
     \<lparr>monthly_trends = monthly_query six_months_ago (transactions db),
      category_trends = category_query thirty_days_ago (transactions db),
      daily_patterns = daily_query thirty_days_ago day_of_week (transactions db)\<rparr>"

section \<open>Budget performance engine: get_budget_performance\<close>

record performance_entry =
  p_category :: string
  p_budget :: rat
  p_actual :: rat
  p_difference :: rat
  p_percentage_used :: rat
  p_status :: string

record performance_report =
  budget_performance :: "performance_entry list"
  total_budget :: rat
  total_spent :: rat
  overall_status :: string

text \<open>A dict comprehension \<open>{k: v for ...}\<close> over a list of (key, value) rows.\<close>

definition dict_of :: "('k \<times> 'v) list \<Rightarrow> ('k, 'v) dict" where
  "dict_of rows = foldl (\<lambda>d (k, v). dict_set d k v) [] rows"

text \<open>
  The query for the month's spending per category, with no condition on \<open>user_id\<close>.
  \<open>strftime('%m', date)\<close> and \<open>f"{current_month:02d}"\<close> are the same two digits exactly when
  the months are equal; \<open>strftime('%Y', date)\<close> has four digits and \<open>str(current_year)\<close> has
  no padding, so they are equal exactly when the years are equal and the current year has
  four digits.
\<close>

definition period_expenses :: "nat \<Rightarrow> nat \<Rightarrow> tx_row list \<Rightarrow> tx_row list" where
  "period_expenses current_month current_year rows =
     filter (\<lambda>r. tx_type r = ''expense''
                 \<and> date_month (tx_date r) = current_month
                 \<and> date_year (tx_date r) = current_year \<and> 1000 \<le> current_year) rows"

definition actual_spending_query :: "nat \<Rightarrow> nat \<Rightarrow> tx_row list \<Rightarrow> (string \<times> rat) list" where
  "actual_spending_query current_month current_year rows =
     map (\<lambda>(c, grp). (c, sum_list (map tx_amount grp)))
       (group_by tx_category (period_expenses current_month current_year rows))"

definition performance_entry_of :: "(string, rat) dict \<Rightarrow> string \<Rightarrow> rat \<Rightarrow> error + performance_entry" where
  "performance_entry_of actual_spending category budget =
     (let actual = dict_get actual_spending category 0
      in case (if budget > 0
               then (case py_div actual budget of Inl e \<Rightarrow> Inl e | Inr q \<Rightarrow> Inr (q * 100))
               else Inr 0) of
           Inl e \<Rightarrow> Inl e
         | Inr pct \<Rightarrow>
             Inr \<lparr>p_category = category, p_budget = budget, p_actual = actual,
                  p_difference = budget - actual, p_percentage_used = pct,
                  p_status = (if actual > budget then ''over_budget'' else ''within_budget'')\<rparr>)"

text \<open>The loop \<open>for category, budget in budget_dict.items()\<close>; an exception ends it.\<close>

fun performance_loop :: "(string, rat) dict \<Rightarrow> (string \<times> rat) list \<Rightarrow> error + performance_entry list" where
  "performance_loop actual_spending [] = Inr []"
| "performance_loop actual_spending ((category, budget) # items) =
     (case performance_entry_of actual_spending category budget of
        Inl e \<Rightarrow> Inl e
      | Inr entry \<Rightarrow>
          (case performance_loop actual_spending items of
             Inl e \<Rightarrow> Inl e
           | Inr entries \<Rightarrow> Inr (entry # entries)))"

definition budget_dict_of :: "nat \<Rightarrow> nat \<Rightarrow> store \<Rightarrow> (string, rat) dict" where
  "budget_dict_of current_month current_year db =
     dict_of (map (\<lambda>g. (bg_category g, bg_amount g))
       (get_budget_goals default_user (Some (int current_month)) (Some (int current_year)) db))"

definition actual_spending_of :: "nat \<Rightarrow> nat \<Rightarrow> store \<Rightarrow> (string, rat) dict" where
  "actual_spending_of current_month current_year db =
     dict_of (actual_spending_query current_month current_year (transactions db))"

text \<open>
  The endpoint; \<open>current_month\<close> and \<open>current_year\<close> are \<open>datetime.now().month\<close> and
  \<open>datetime.now().year\<close>. Any exception becomes \<open>HTTPException(500)\<close>.
\<close>

definition get_budget_performance :: "nat \<Rightarrow> nat \<Rightarrow> store \<Rightarrow> error + performance_report" where
  "get_budget_performance current_month current_year db =
     (let budget_dict = budget_dict_of current_month current_year db;
          actual_spending = actual_spending_of current_month current_year db
      in case performance_loop actual_spending budget_dict of
           Inl e \<Rightarrow> Inl (HTTPException 500)
         | Inr performance \<Rightarrow>
             Inr \<lparr>budget_performance = performance,
                  total_budget = sum_list (dict_values budget_dict),
                  total_spent = sum_list (dict_values actual_spending),
                  overall_status =
                    (if sum_list (dict_values actual_spending) \<le> sum_list (dict_values budget_dict)
                     then ''within_budget'' else ''over_budget'')\<rparr>)"

section \<open>Binary64 arithmetic\<close>

text \<open>
  A Python float is an IEEE 754 binary64 value: a finite number, \<open>inf\<close>, \<open>-inf\<close> or
  \<open>nan\<close>. A finite float is the rational it stands for (the sign of zero is not kept).
  \<open>f64_round\<close> is rounding to nearest, ties to even: 53 significant bits, the exponent of
  a subnormal fixed at -1022, and overflow to an infinity from 2 to the power 1024 on.
\<close>

datatype py_float = Finite rat | PosInf | NegInf | NaN

definition pow2 :: "int \<Rightarrow> rat" where
  "pow2 e = (if 0 \<le> e then 2 ^ nat e else 1 / 2 ^ nat (- e))"

definition round_half_even :: "rat \<Rightarrow> int" where
  "round_half_even q =
     (let n = \<lfloor>q\<rfloor>; r = q - of_int n
      in if r < 1 / 2 then n else if 1 / 2 < r then n + 1 else if even n then n else n + 1)"

text \<open>The \<open>e\<close> with \<open>pow2 e \<le> \<bar>x\<bar> < pow2 (e + 1)\<close>, for \<open>x\<close> other than 0.\<close>

definition exponent_of :: "rat \<Rightarrow> int" where
  "exponent_of x =
     (if 1 \<le> \<bar>x\<bar> then bitlen \<lfloor>\<bar>x\<bar>\<rfloor> - 1 else - bitlen (\<lceil>1 / \<bar>x\<bar>\<rceil> - 1))"

definition f64_round :: "rat \<Rightarrow> py_float" where
  "f64_round x =
     (if x = 0 then Finite 0
      else let e = max (exponent_of x) (- 1022);
               ulp = pow2 (e - 52);
               y = of_int (round_half_even (\<bar>x\<bar> / ulp)) * ulp
           in if pow2 1024 \<le> y then (if 0 < x then PosInf else NegInf)
              else Finite (sgn x * y))"

text \<open>Float \<open>+\<close>, \<open><=\<close> and \<open><\<close>; every comparison with \<open>nan\<close> is false.\<close>

fun py_add :: "py_float \<Rightarrow> py_float \<Rightarrow> py_float" where
  "py_add NaN y = NaN"
| "py_add x NaN = NaN"
| "py_add PosInf NegInf = NaN"
| "py_add NegInf PosInf = NaN"
| "py_add PosInf y = PosInf"
| "py_add x PosInf = PosInf"
| "py_add NegInf y = NegInf"
| "py_add x NegInf = NegInf"
| "py_add (Finite a) (Finite b) = f64_round (a + b)"

fun py_le :: "py_float \<Rightarrow> py_float \<Rightarrow> bool" where
  "py_le NaN y = False"
| "py_le x NaN = False"
| "py_le NegInf y = True"
| "py_le x PosInf = True"
| "py_le PosInf y = False"
| "py_le x NegInf = False"
| "py_le (Finite a) (Finite b) = (a \<le> b)"

fun py_lt :: "py_float \<Rightarrow> py_float \<Rightarrow> bool" where
  "py_lt NaN y = False"
| "py_lt x NaN = False"
| "py_lt PosInf y = False"
| "py_lt x NegInf = False"
| "py_lt NegInf y = True"
| "py_lt x PosInf = True"
| "py_lt (Finite a) (Finite b) = (a < b)"

subsection \<open>The sums of the engines under a given arithmetic\<close>

text \<open>
  The built-in \<open>sum\<close>: it starts from the int 0 and adds the items from left to right
  (as CPython does up to 3.11; later versions compensate the rounding errors of a sum of
  floats, and give the same results at the inputs evaluated below).
  \<open>add\<close> and \<open>zero\<close> are the addition and the 0 of the arithmetic: \<open>(+)\<close> and \<open>0\<close> on the
  exact amounts of the sections above, \<open>py_add\<close> and \<open>Finite 0\<close> on floats.
\<close>

definition py_sum_in :: "('a \<Rightarrow> 'a \<Rightarrow> 'a) \<Rightarrow> 'a \<Rightarrow> 'a list \<Rightarrow> 'a" where
  "py_sum_in add zero xs = foldl add zero xs"



text \<open>
  The last line of the report of \<open>get_budget_performance\<close>:
  \<open>"within_budget" if sum(actual_spending.values()) <= sum(budget_dict.values()) else
  "over_budget"\<close>, with \<open>le\<close> the comparison \<open><=\<close> of the arithmetic.
\<close>

definition overall_status_in ::
  "('a \<Rightarrow> 'a \<Rightarrow> 'a) \<Rightarrow> 'a \<Rightarrow> ('a \<Rightarrow> 'a \<Rightarrow> bool) \<Rightarrow> 'a list \<Rightarrow> 'a list \<Rightarrow> string" where
  "overall_status_in add zero le budget_values actual_values =
     (if le (py_sum_in add zero actual_values) (py_sum_in add zero budget_values)
      then ''within_budget'' else ''over_budget'')"

section \<open>Invariants and reachable stores\<close>

text \<open>At most one goal per (owner, category, month, year).\<close>

definition goals_unique :: "store \<Rightarrow> bool" where
  "goals_unique db = distinct (map goal_key (budget_goals db))"

text \<open>Goal ids are distinct and none exceeds the recorded sequence value.\<close>

definition goal_ids_ok :: "store \<Rightarrow> bool" where
  "goal_ids_ok db =
     (distinct (map bg_id (budget_goals db))
      \<and> list_all (\<lambda>g. bg_id g \<le> budget_goals_seq db) (budget_goals db))"

text \<open>The stores that the operations produce from a new database.\<close>

inductive reachable :: "store \<Rightarrow> bool" where
  reach_init: "reachable init_database"
| reach_create: "reachable db \<Longrightarrow> reachable (snd (create_transaction now transaction user_id db))"
| reach_delete: "reachable db \<Longrightarrow> reachable (snd (delete_transaction transaction_id db))"
| reach_goal: "reachable db \<Longrightarrow> reachable (set_budget_goal budget_goal user_id db)"

text \<open>
  The same store with the \<open>user_id\<close> column of \<open>transactions\<close> rewritten row by row;
  used to state that a query does not read that column.
\<close>

definition relabel_owner :: "(tx_row \<Rightarrow> string) \<Rightarrow> store \<Rightarrow> store" where
  "relabel_owner f db = db\<lparr>transactions := map (\<lambda>r. r\<lparr>tx_user_id := f r\<rparr>) (transactions db)\<rparr>"

section \<open>Sample data\<close>

definition sample_row :: "string \<Rightarrow> string \<Rightarrow> rat \<Rightarrow> tx_row" where
  "sample_row ty c a =
     \<lparr>tx_id = 1, tx_user_id = ''default_user'', tx_type = ty, tx_category = c, tx_amount = a,
      tx_description = None, tx_date = (2024, 1, 5), tx_created_at = 0\<rparr>"

definition sample_tx :: "TransactionType \<Rightarrow> string \<Rightarrow> rat \<Rightarrow> date \<Rightarrow> Transaction" where
  "sample_tx ty c a d =
     \<lparr>t_type = ty, t_category = c, t_amount = a, t_description = None, t_date = d\<rparr>"

definition sample_goal :: "string \<Rightarrow> rat \<Rightarrow> BudgetGoal" where
  "sample_goal c a = \<lparr>g_category = c, g_amount = a, g_month = 1, g_year = 2024\<rparr>"

text \<open>One expense of the default user, recorded at second 5.\<close>

definition db_one :: store where
  "db_one = snd (create_transaction 5 (sample_tx EXPENSE ''food'' 200 (2024, 1, 10)) default_user
                   init_database)"

text \<open>A second expense on the same date, recorded within the same second.\<close>

definition db_tie :: store where
  "db_tie = snd (create_transaction 5 (sample_tx EXPENSE ''rent'' 30 (2024, 1, 10)) default_user db_one)"

text \<open>One goal of the default user: food, 300, for January 2024.\<close>

definition db_goal :: store where
  "db_goal = set_budget_goal (sample_goal ''food'' 300) default_user init_database"

text \<open>The entry the loop of \<open>get_budget_performance\<close> appends for one goal.\<close>

definition entry_for :: "(string, rat) dict \<Rightarrow> string \<Rightarrow> rat \<Rightarrow> performance_entry" where
  "entry_for actual_spending category budget =
     \<lparr>p_category = category, p_budget = budget,
      p_actual = dict_get actual_spending category 0,
      p_difference = budget - dict_get actual_spending category 0,
      p_percentage_used =
        (if budget > 0 then dict_get actual_spending category 0 / budget * 100 else 0),
      p_status =
        (if dict_get actual_spending category 0 > budget then ''over_budget'' else ''within_budget'')\<rparr>"

text \<open>
  January 2024: the default user's goals food 300 and fun 0, an expense of the default
  user (food, 250) and one of another user (fun, 40).
\<close>

definition db_budget :: store where
  "db_budget =
     snd (create_transaction 6 (sample_tx EXPENSE ''fun'' 40 (2024, 1, 12)) ''bob''
       (snd (create_transaction 5 (sample_tx EXPENSE ''food'' 250 (2024, 1, 10)) default_user
         (set_budget_goal (sample_goal ''fun'' 0) default_user db_goal))))"

text \<open>\<open>db_one\<close> after another user records an expense on the same date.\<close>

definition db_bob :: store where
  "db_bob = snd (create_transaction 6 (sample_tx EXPENSE ''fun'' 40 (2024, 1, 10)) ''bob'' db_one)"


section \<open>Dictionary lemmas\<close>

lemma dict_set_keys:
  "map fst (dict_set d k v) = (if k \<in> set (map fst d) then map fst d else map fst d @ [k])"
  by (induction d) (force split: if_splits)+

lemma dict_set_distinct: "distinct (map fst d) \<Longrightarrow> distinct (map fst (dict_set d k v))"
  by (simp add: dict_set_keys)



section \<open>Summary lemmas\<close>







section \<open>Binary64 lemmas\<close>

lemma floor_numeral_div: "\<lfloor>numeral a / numeral b :: rat\<rfloor> = numeral a div numeral b"
  using floor_divide_of_int_eq [of "numeral a" "numeral b", where ?'a = rat] by simp

lemma ceiling_numeral_div: "\<lceil>numeral a / numeral b :: rat\<rceil> = - (- numeral a div numeral b)"
  using floor_divide_of_int_eq [of "- numeral a" "numeral b", where ?'a = rat]
  by (simp add: ceiling_def)

lemmas f64_eval = f64_round_def exponent_of_def pow2_def round_half_even_def Let_def
  compute_bitlen floor_numeral_div ceiling_numeral_div











lemma py_le_lt: "py_le a b = (a \<noteq> NaN \<and> b \<noteq> NaN \<and> \<not> py_lt b a)"
  by (cases a; cases b) auto

section \<open>The sums under a given arithmetic\<close>

lemma foldl_plus_sum_list: "foldl (+) a xs = a + (sum_list xs :: rat)"
  by (induction xs arbitrary: a) (simp_all add: add.assoc)

lemma py_sum_in_exact: "py_sum_in (+) 0 xs = (sum_list xs :: rat)"
  by (simp add: py_sum_in_def foldl_plus_sum_list)







lemma overall_status_exact:
  "overall_status_in (+) 0 (\<le>) bs as =
     (if (sum_list as :: rat) \<le> sum_list bs then ''within_budget'' else ''over_budget'')"
  by (simp add: overall_status_in_def py_sum_in_exact)

section \<open>SQL lemmas\<close>

lemma insert_by_mset: "mset (insert_by ahead r xs) = add_mset r (mset xs)"
  by (induction xs) auto

lemma order_by_mset: "mset (order_by ahead xs) = mset xs"
  unfolding order_by_def by (induction xs) (auto simp: insert_by_mset)

lemma order_by_set: "set (order_by ahead xs) = set xs"
  using order_by_mset [of ahead xs] by (metis set_mset_mset)

lemma insert_by_set: "set (insert_by ahead r xs) = insert r (set xs)"
  using insert_by_mset [of ahead r xs] by (metis set_mset_mset set_mset_add_mset_insert)

lemma insert_by_sorted:
  assumes total: "\<And>a b. ahead a b \<or> ahead b a"
    and trans: "\<And>a b c. ahead a b \<Longrightarrow> ahead b c \<Longrightarrow> ahead a c"
  shows "sorted_wrt ahead xs \<Longrightarrow> sorted_wrt ahead (insert_by ahead r xs)"
proof (induction xs)
  case Nil
  show ?case by simp
next
  case (Cons x xs)
  show ?case
  proof (cases "ahead r x")
    case True
    then have "\<forall>y\<in>set xs. ahead r y"
      using Cons.prems trans by auto
    then show ?thesis using True Cons.prems by simp
  next
    case False
    then have "ahead x r" using total by blast
    then show ?thesis
      using False Cons by (auto simp: insert_by_set)
  qed
qed

lemma order_by_sorted:
  assumes total: "\<And>a b. ahead a b \<or> ahead b a"
    and trans: "\<And>a b c. ahead a b \<Longrightarrow> ahead b c \<Longrightarrow> ahead a c"
  shows "sorted_wrt ahead (order_by ahead xs)"
  unfolding order_by_def
  by (induction xs) (auto intro: insert_by_sorted [OF total trans])

lemma foldr_insert_by_head:
  "\<forall>x\<in>set xs. \<not> ahead x r \<Longrightarrow> \<exists>rest'. foldr (insert_by ahead) xs (r # rest) = r # rest'"
proof (induction xs)
  case Nil
  show ?case by simp
next
  case (Cons x xs)
  then obtain rest' where "foldr (insert_by ahead) xs (r # rest) = r # rest'"
    by auto
  then show ?case using Cons.prems by simp
qed

lemma order_by_last_first:
  "\<forall>x\<in>set xs. \<not> ahead x r \<Longrightarrow> \<exists>rest. order_by ahead (xs @ [r]) = r # rest"
  unfolding order_by_def using foldr_insert_by_head [of xs ahead r "[]"] by simp

lemma sql_limit_set: "set (sql_limit n xs) \<subseteq> set xs"
  by (auto simp: sql_limit_def dest: in_set_takeD)

lemma rowcount_zero:
  "length xs - length (filter P xs) = 0 \<longleftrightarrow> (\<forall>x\<in>set xs. P x)"
proof -
  have "length (filter P xs) + length (filter (\<lambda>x. \<not> P x) xs) = length xs"
    by (rule sum_length_filter_compl)
  then have "length xs - length (filter P xs) = length (filter (\<lambda>x. \<not> P x) xs)"
    by simp
  then show ?thesis
    by (simp add: filter_empty_conv)
qed

section \<open>Row identifiers and listing lemmas\<close>

lemma fold_max_ge: "seq \<le> fold max ids (seq :: nat)"
  by (induction ids arbitrary: seq) (auto intro: order_trans [OF max.cobounded2])

lemma fold_max_mem: "i \<in> set ids \<Longrightarrow> i \<le> fold max ids (seq :: nat)"
proof (induction ids arbitrary: seq)
  case Nil
  then show ?case by simp
next
  case (Cons a ids)
  show ?case
  proof (cases "i = a")
    case True
    have "a \<le> max a seq" by simp
    also have "\<dots> \<le> fold max ids (max a seq)" by (rule fold_max_ge)
    finally show ?thesis using True by simp
  next
    case False
    then show ?thesis using Cons by simp
  qed
qed

lemma next_rowid_fresh: "i \<in> set ids \<Longrightarrow> i < next_rowid seq ids"
  using fold_max_mem [of i ids seq] by (simp add: next_rowid_def)

lemma next_rowid_seq: "seq < next_rowid seq ids"
  using fold_max_ge [of seq ids] by (simp add: next_rowid_def)

lemma newest_first_total: "newest_first a b \<or> newest_first b a"
  by (auto simp: newest_first_def)

lemma newest_first_trans: "newest_first a b \<Longrightarrow> newest_first b c \<Longrightarrow> newest_first a c"
  unfolding newest_first_def by (rule order_trans)

lemma listing_rows_subset:
  "get_transactions u l db = Inr rows \<Longrightarrow> set rows \<subseteq> set (transactions db)"
  unfolding get_transactions_def ordered_rows_def
  using sql_limit_set [of l] by (fastforce simp: order_by_set split: if_splits)

section \<open>Claims about the summary engine\<close>

text \<open>
  C4. For every list of transactions, \<open>calculate_financial_summary\<close> returns a summary
  (no exception, in particular no division by zero), and its \<open>savings_rate\<close> is
  \<open>net_balance / total_income * 100\<close> when \<open>total_income > 0\<close> and \<open>0\<close> otherwise, so
  it is \<open>0\<close> when \<open>total_income = 0\<close>.
\<close>

theorem savings_rate_guarded:
  "\<exists>s. calculate_financial_summary ts = Inr s
     \<and> total_income s = sum_income ts
     \<and> net_balance s = sum_income ts - sum_expenses ts
     \<and> savings_rate s = (if total_income s > 0 then net_balance s / total_income s * 100 else 0)"
  by (simp add: calculate_financial_summary_def py_div_def Let_def)

theorem savings_rate_guarded_witness:
  "(\<exists>s. calculate_financial_summary
           [sample_row ''income'' ''salary'' 1000, sample_row ''expense'' ''food'' 250] = Inr s
      \<and> savings_rate s = 75)
   \<and> (\<exists>s. calculate_financial_summary [sample_row ''expense'' ''food'' 250] = Inr s
      \<and> savings_rate s = 0)"
  using savings_rate_guarded [of "[sample_row ''income'' ''salary'' 1000, sample_row ''expense'' ''food'' 250]"]
    savings_rate_guarded [of "[sample_row ''expense'' ''food'' 250]"]
  by (auto simp: sum_income_def sum_expenses_def sample_row_def)




section \<open>Claims about the ledger store\<close>




lemma delete_transaction_overflow:
  assumes "\<not> sql_int transaction_id"
  shows "delete_transaction transaction_id db = (Inl (HTTPException 500), db)"
  using assms by (simp add: delete_transaction_def)

lemma delete_transaction_found:
  assumes "sql_int transaction_id"
    and "\<exists>r\<in>set (transactions db). int (tx_id r) = transaction_id"
  shows "delete_transaction transaction_id db =
      (Inr ''Transaction deleted successfully'',
       db\<lparr>transactions := filter (\<lambda>r. int (tx_id r) \<noteq> transaction_id) (transactions db)\<rparr>)"
proof -
  have "\<not> (\<forall>r\<in>set (transactions db). int (tx_id r) \<noteq> transaction_id)"
    using assms(2) by blast
  then have "length (transactions db)
      - length (filter (\<lambda>r. int (tx_id r) \<noteq> transaction_id) (transactions db)) \<noteq> 0"
    unfolding rowcount_zero .
  then show ?thesis
    unfolding delete_transaction_def Let_def using assms(1) by (simp only: simp_thms if_False)
qed

lemma delete_transaction_missing:
  assumes "sql_int transaction_id"
    and "\<not> (\<exists>r\<in>set (transactions db). int (tx_id r) = transaction_id)"
  shows "delete_transaction transaction_id db = (Inl (HTTPException 404), db)"
proof -
  have "\<forall>r\<in>set (transactions db). int (tx_id r) \<noteq> transaction_id"
    using assms(2) by blast
  then have "length (transactions db)
      - length (filter (\<lambda>r. int (tx_id r) \<noteq> transaction_id) (transactions db)) = 0"
    unfolding rowcount_zero .
  then show ?thesis
    unfolding delete_transaction_def Let_def using assms(1)
    by (simp only: simp_thms if_True if_False)
qed

lemma listing_after_delete:
  assumes "get_transactions user_id limit
              (db\<lparr>transactions := filter (\<lambda>r. int (tx_id r) \<noteq> transaction_id) (transactions db)\<rparr>)
             = Inr rows"
    and "r \<in> set rows"
  shows "int (tx_id r) \<noteq> transaction_id"
proof -
  let ?db' = "db\<lparr>transactions := filter (\<lambda>r. int (tx_id r) \<noteq> transaction_id) (transactions db)\<rparr>"
  have "r \<in> set (transactions ?db')"
    using assms listing_rows_subset [of user_id limit ?db' rows] by blast
  then show ?thesis by simp
qed

lemma db_tie_rows:
  "transactions db_tie =
     [\<lparr>tx_id = 1, tx_user_id = ''default_user'', tx_type = ''expense'', tx_category = ''food'',
       tx_amount = 200, tx_description = None, tx_date = (2024, 1, 10), tx_created_at = 5\<rparr>,
      \<lparr>tx_id = 2, tx_user_id = ''default_user'', tx_type = ''expense'', tx_category = ''rent'',
       tx_amount = 30, tx_description = None, tx_date = (2024, 1, 10), tx_created_at = 5\<rparr>]"
  by (simp add: db_tie_def db_one_def create_transaction_def sample_tx_def default_user_def
      init_database_def next_rowid_def Let_def)

text \<open>
  C7 (as amended). For a \<open>transaction_id\<close> within the 64-bit range \<open>delete_transaction\<close>
  reports whether a row with that id existed: when none exists it answers
  \<open>HTTPException(404)\<close> and the store is unchanged; when one exists it answers with the
  success message, the table keeps exactly the rows with another id, and no later listing,
  for any owner and limit, returns a row with that id. For a \<open>transaction_id\<close> outside the
  64-bit range it answers \<open>HTTPException(500)\<close> and the store is unchanged.
\<close>

theorem delete_transaction_reports:
  "(if \<not> sql_int transaction_id
    then delete_transaction transaction_id db = (Inl (HTTPException 500), db)
    else if \<exists>r\<in>set (transactions db). int (tx_id r) = transaction_id
    then \<exists>msg. delete_transaction transaction_id db =
            (Inr msg, db\<lparr>transactions := filter (\<lambda>r. int (tx_id r) \<noteq> transaction_id) (transactions db)\<rparr>)
         \<and> (\<forall>user_id limit rows.
               get_transactions user_id limit (snd (delete_transaction transaction_id db)) = Inr rows \<longrightarrow>
               (\<forall>r\<in>set rows. int (tx_id r) \<noteq> transaction_id))
    else delete_transaction transaction_id db = (Inl (HTTPException 404), db))"
proof (cases "sql_int transaction_id")
  case False
  then show ?thesis
    using delete_transaction_overflow [OF False] by (simp only: simp_thms if_True)
next
  case range: True
  show ?thesis
  proof (cases "\<exists>r\<in>set (transactions db). int (tx_id r) = transaction_id")
    case True
    note del = delete_transaction_found [OF range True]
    have "\<forall>user_id limit rows.
               get_transactions user_id limit (snd (delete_transaction transaction_id db)) = Inr rows \<longrightarrow>
               (\<forall>r\<in>set rows. int (tx_id r) \<noteq> transaction_id)"
      unfolding del snd_conv using listing_after_delete by blast
    with del have "\<exists>msg. delete_transaction transaction_id db =
            (Inr msg, db\<lparr>transactions := filter (\<lambda>r. int (tx_id r) \<noteq> transaction_id) (transactions db)\<rparr>)
         \<and> (\<forall>user_id limit rows.
               get_transactions user_id limit (snd (delete_transaction transaction_id db)) = Inr rows \<longrightarrow>
               (\<forall>r\<in>set rows. int (tx_id r) \<noteq> transaction_id))"
      by blast
    then show ?thesis
      using range True by (simp only: simp_thms if_True if_False)
  next
    case False
    show ?thesis
      using range False delete_transaction_missing [OF range False]
      by (simp only: simp_thms if_False)
  qed
qed

text \<open>
  C7 as stated fails: the id 9223372036854775808 is not in the table, and deleting it
  answers \<open>HTTPException(500)\<close>, not the 404 of a missing row.
\<close>

theorem delete_absent_id_out_of_range:
  "map tx_id (transactions db_tie) = [1, 2]
   \<and> delete_transaction 9223372036854775808 db_tie = (Inl (HTTPException 500), db_tie)"
  by (simp add: db_tie_rows delete_transaction_def sql_int_def)

theorem delete_transaction_reports_witness:
  "fst (delete_transaction 1 db_tie) = Inr ''Transaction deleted successfully''
   \<and> map tx_id (transactions (snd (delete_transaction 1 db_tie))) = [2]
   \<and> delete_transaction 7 db_tie = (Inl (HTTPException 404), db_tie)
   \<and> delete_transaction (- 9223372036854775809) db_tie = (Inl (HTTPException 500), db_tie)"
proof -
  have r1: "sql_int 1" and r7: "sql_int 7" and r0: "\<not> sql_int (- 9223372036854775809)"
    by (simp_all add: sql_int_def)
  have a: "\<exists>r\<in>set (transactions db_tie). int (tx_id r) = 1"
    by (simp add: db_tie_rows)
  have b: "\<not> (\<exists>r\<in>set (transactions db_tie). int (tx_id r) = 7)"
    by (simp add: db_tie_rows)
  from delete_transaction_reports [of 1 db_tie] r1 a
  obtain msg where del: "delete_transaction 1 db_tie =
       (Inr msg, db_tie\<lparr>transactions := filter (\<lambda>r. int (tx_id r) \<noteq> 1) (transactions db_tie)\<rparr>)"
    by (simp only: simp_thms if_True if_False) blast
  have msg: "msg = ''Transaction deleted successfully''"
    using del delete_transaction_found [OF r1 a] by simp
  have nf: "delete_transaction 7 db_tie = (Inl (HTTPException 404), db_tie)"
    using delete_transaction_reports [of 7 db_tie] r7 b by (simp only: simp_thms if_False)
  have ov: "delete_transaction (- 9223372036854775809) db_tie = (Inl (HTTPException 500), db_tie)"
    using delete_transaction_reports [of "- 9223372036854775809" db_tie] r0
    by (simp only: simp_thms if_True)
  have rows: "map tx_id (filter (\<lambda>r. int (tx_id r) \<noteq> 1) (transactions db_tie)) = [2]"
    by (simp add: db_tie_rows)
  show ?thesis
    unfolding del nf ov using msg rows by simp
qed

lemma newest_first_iff:
  "newest_first a b \<longleftrightarrow>
     tx_date b < tx_date a \<or> (tx_date b = tx_date a \<and> tx_created_at b \<le> tx_created_at a)"
  by (auto simp: newest_first_def tx_sort_key_def)

lemma ordered_rows_sorted: "sorted_wrt newest_first (ordered_rows user_id db)"
  unfolding ordered_rows_def by (rule order_by_sorted [OF newest_first_total newest_first_trans])

lemma ordered_rows_mset:
  "mset (ordered_rows user_id db) = mset (filter (\<lambda>r. tx_user_id r = user_id) (transactions db))"
  unfolding ordered_rows_def by (rule order_by_mset)

lemma sql_limit_Cons: "n \<noteq> 0 \<Longrightarrow> \<exists>rest'. sql_limit n (x # rest) = x # rest'"
  by (cases "n < 0") (auto simp: sql_limit_def take_Cons' )

lemma get_transactions_cases:
  "get_transactions user_id limit db =
     (if sql_int limit
      then Inr (if limit < 0 then ordered_rows user_id db
                else take (nat limit) (ordered_rows user_id db))
      else Inl OverflowError)"
  by (simp add: get_transactions_def sql_limit_def)

lemma created_row_first:
  assumes older: "\<forall>r\<in>set (transactions db). tx_user_id r = user_id \<longrightarrow>
            tx_date r < t_date transaction
            \<or> (tx_date r = t_date transaction \<and> tx_created_at r < now)"
    and range: "sql_int limit"
    and limit: "limit \<noteq> 0"
  shows "\<exists>row rest.
           get_transactions user_id limit (snd (create_transaction now transaction user_id db))
             = Inr (row # rest)
           \<and> tx_id row = fst (create_transaction now transaction user_id db)"
proof -
  let ?i = "next_rowid (transactions_seq db) (map tx_id (transactions db))"
  let ?row = "\<lparr>tx_id = ?i, tx_user_id = user_id, tx_type = type_value (t_type transaction),
                 tx_category = t_category transaction, tx_amount = t_amount transaction,
                 tx_description = t_description transaction, tx_date = t_date transaction,
                 tx_created_at = now\<rparr>"
  let ?own = "filter (\<lambda>r. tx_user_id r = user_id) (transactions db)"
  have ct: "create_transaction now transaction user_id db =
      (?i, db\<lparr>transactions := transactions db @ [?row], transactions_seq := ?i\<rparr>)"
    by (simp add: create_transaction_def Let_def)
  have "\<forall>x\<in>set ?own. \<not> newest_first x ?row"
    using older by (auto simp: newest_first_iff)
  then obtain rest where "order_by newest_first (?own @ [?row]) = ?row # rest"
    using order_by_last_first [of ?own newest_first ?row] by blast
  moreover obtain rest' where "sql_limit limit (?row # rest) = ?row # rest'"
    using sql_limit_Cons [OF limit, of ?row rest] by blast
  ultimately have "get_transactions user_id limit
      (db\<lparr>transactions := transactions db @ [?row], transactions_seq := ?i\<rparr>) = Inr (?row # rest')"
    using range by (simp add: get_transactions_def ordered_rows_def)
  then show ?thesis
    unfolding ct by (intro exI [of _ ?row] exI [of _ rest']) simp
qed

lemma db_one_rows:
  "transactions db_one =
     [\<lparr>tx_id = 1, tx_user_id = ''default_user'', tx_type = ''expense'', tx_category = ''food'',
       tx_amount = 200, tx_description = None, tx_date = (2024, 1, 10), tx_created_at = 5\<rparr>]"
  by (simp add: db_one_def create_transaction_def sample_tx_def default_user_def
      init_database_def next_rowid_def Let_def)

text \<open>
  C8 (as amended). For every owner: the rows the SELECT produces before the limit are
  exactly the owner's rows, ordered by date descending, rows of equal date by
  \<open>created_at\<close> descending. For every \<open>limit\<close> within the 64-bit range the listing is the
  first \<open>limit\<close> of these rows when \<open>limit\<close> is 0 or more and all of them when it is
  negative; the default is 100; a \<open>limit\<close> outside the range raises \<open>OverflowError\<close>.
  A transaction inserted for the owner is returned first by a listing with a limit in the
  range and other than 0 when every other row of the owner has an earlier date, or the same
  date and a strictly earlier \<open>created_at\<close>.
\<close>

theorem get_transactions_ordered_limited:
  "get_transactions user_id limit db =
     (if sql_int limit
      then Inr (if limit < 0 then ordered_rows user_id db
                else take (nat limit) (ordered_rows user_id db))
      else Inl OverflowError)
   \<and> mset (ordered_rows user_id db) = mset (filter (\<lambda>r. tx_user_id r = user_id) (transactions db))
   \<and> sorted_wrt (\<lambda>a b. tx_date b < tx_date a
                      \<or> (tx_date b = tx_date a \<and> tx_created_at b \<le> tx_created_at a))
        (ordered_rows user_id db)
   \<and> get_transactions_default user_id db = Inr (take 100 (ordered_rows user_id db))
   \<and> ((\<forall>r\<in>set (transactions db). tx_user_id r = user_id \<longrightarrow>
            tx_date r < t_date transaction
            \<or> (tx_date r = t_date transaction \<and> tx_created_at r < now)) \<longrightarrow>
        sql_int limit \<longrightarrow> limit \<noteq> 0 \<longrightarrow>
        (\<exists>row rest.
           get_transactions user_id limit (snd (create_transaction now transaction user_id db))
             = Inr (row # rest)
           \<and> tx_id row = fst (create_transaction now transaction user_id db)))"
proof -
  have a: "mset (ordered_rows user_id db)
      = mset (filter (\<lambda>r. tx_user_id r = user_id) (transactions db))"
    by (rule ordered_rows_mset)
  have "sorted_wrt newest_first (ordered_rows user_id db)"
    by (rule ordered_rows_sorted)
  then have b: "sorted_wrt (\<lambda>a b. tx_date b < tx_date a
                      \<or> (tx_date b = tx_date a \<and> tx_created_at b \<le> tx_created_at a))
        (ordered_rows user_id db)"
    by (simp add: newest_first_iff [abs_def])
  have c: "get_transactions user_id limit db =
     (if sql_int limit
      then Inr (if limit < 0 then ordered_rows user_id db
                else take (nat limit) (ordered_rows user_id db))
      else Inl OverflowError)"
    by (rule get_transactions_cases)
  have d: "get_transactions_default user_id db = Inr (take 100 (ordered_rows user_id db))"
    unfolding get_transactions_default_def get_transactions_cases [of user_id 100 db]
    by (simp add: sql_int_def)
  show ?thesis
    using a b c d created_row_first [of db user_id transaction now limit] by blast
qed

text \<open>
  C8 as stated fails in three places. With \<open>limit = -1\<close> the listing is not cut to its
  first \<open>limit\<close> entries: both rows of the table come back. A transaction inserted with
  the most recent date is not returned first when an older row has the same date and the
  same \<open>created_at\<close> second: the older row, id 1, stays first. And with the limit
  9223372036854775808 no listing is returned at all.
\<close>

theorem negative_limit_and_tie:
  "get_transactions default_user (- 1) db_tie = Inr (transactions db_tie)
   \<and> length (transactions db_tie) = 2
   \<and> map tx_date (transactions db_one) = [(2024, 1, 10)]
   \<and> t_date (sample_tx EXPENSE ''rent'' 30 (2024, 1, 10)) = (2024, 1, 10)
   \<and> fst (create_transaction 5 (sample_tx EXPENSE ''rent'' 30 (2024, 1, 10)) default_user db_one) = 2
   \<and> map_sum id (map tx_id) (get_transactions default_user 1
         (snd (create_transaction 5 (sample_tx EXPENSE ''rent'' 30 (2024, 1, 10)) default_user db_one)))
       = Inr [1]
   \<and> get_transactions default_user 9223372036854775808 db_tie = Inl OverflowError"
proof -
  have a: "get_transactions default_user (- 1) db_tie = Inr (transactions db_tie)"
    by (simp add: get_transactions_def ordered_rows_def sql_limit_def sql_int_def order_by_def
        db_tie_rows default_user_def newest_first_def tx_sort_key_def)
  have a': "length (transactions db_tie) = 2"
    by (simp add: db_tie_rows)
  have b: "map tx_date (transactions db_one) = [(2024, 1, 10)]"
    by (simp add: db_one_rows)
  have c: "t_date (sample_tx EXPENSE ''rent'' 30 (2024, 1, 10)) = (2024, 1, 10)"
    by (simp add: sample_tx_def)
  have d: "fst (create_transaction 5 (sample_tx EXPENSE ''rent'' 30 (2024, 1, 10)) default_user db_one) = 2"
    by (simp add: create_transaction_def Let_def db_one_rows next_rowid_def db_one_def init_database_def)
  have "map_sum id (map tx_id) (get_transactions default_user 1 db_tie) = Inr [1]"
    by (simp add: get_transactions_def ordered_rows_def sql_limit_def sql_int_def order_by_def
        db_tie_rows default_user_def newest_first_def tx_sort_key_def)
  then have e: "map_sum id (map tx_id) (get_transactions default_user 1
         (snd (create_transaction 5 (sample_tx EXPENSE ''rent'' 30 (2024, 1, 10)) default_user db_one)))
       = Inr [1]"
    by (simp only: db_tie_def)
  have f: "get_transactions default_user 9223372036854775808 db_tie = Inl OverflowError"
    by (simp add: get_transactions_def sql_int_def)
  show ?thesis using a a' b c d e f by blast
qed

theorem get_transactions_ordered_limited_witness:
  "(\<exists>row rest.
      get_transactions default_user 1
        (snd (create_transaction 6 (sample_tx EXPENSE ''rent'' 30 (2024, 1, 10)) default_user db_one))
        = Inr (row # rest)
      \<and> tx_id row = 2)
   \<and> get_transactions default_user 1 db_tie = Inr (take 1 (ordered_rows default_user db_tie))
   \<and> get_transactions default_user (- 9223372036854775809) db_tie = Inl OverflowError"
proof -
  let ?tx = "sample_tx EXPENSE ''rent'' 30 (2024, 1, 10)"
  have older: "\<forall>r\<in>set (transactions db_one). tx_user_id r = default_user \<longrightarrow>
            tx_date r < t_date ?tx \<or> (tx_date r = t_date ?tx \<and> tx_created_at r < 6)"
    by (simp add: db_one_rows sample_tx_def)
  have lim: "(1::int) \<noteq> 0" and range: "sql_int 1"
    and out: "\<not> sql_int (- 9223372036854775809)"
    by (simp_all add: sql_int_def)
  have id: "fst (create_transaction 6 ?tx default_user db_one) = 2"
    by (simp add: create_transaction_def Let_def db_one_rows next_rowid_def db_one_def init_database_def)
  have first: "\<exists>row rest.
      get_transactions default_user 1 (snd (create_transaction 6 ?tx default_user db_one))
        = Inr (row # rest)
      \<and> tx_id row = fst (create_transaction 6 ?tx default_user db_one)"
    using get_transactions_ordered_limited [of default_user 1 db_one ?tx 6] older lim range by blast
  have cut: "get_transactions default_user 1 db_tie = Inr (take 1 (ordered_rows default_user db_tie))"
    using get_transactions_ordered_limited [of default_user 1 db_tie ?tx 6] range by simp
  have ov: "get_transactions default_user (- 9223372036854775809) db_tie = Inl OverflowError"
    using get_transactions_ordered_limited [of default_user "- 9223372036854775809" db_tie ?tx 6] out
    by simp
  show ?thesis using first id cut ov by simp
qed

section \<open>Budget goal lemmas\<close>

lemma set_budget_goal_rows:
  "budget_goals (set_budget_goal g u db) =
     filter (\<lambda>x. goal_key x \<noteq> (u, g_category g, g_month g, g_year g)) (budget_goals db)
     @ [\<lparr>bg_id = next_rowid (budget_goals_seq db) (map bg_id (budget_goals db)), bg_user_id = u,
         bg_category = g_category g, bg_amount = g_amount g, bg_month = g_month g,
         bg_year = g_year g\<rparr>]"
  by (simp add: set_budget_goal_def Let_def goal_key_def)

lemma set_budget_goal_seq:
  "budget_goals_seq (set_budget_goal g u db) =
     next_rowid (budget_goals_seq db) (map bg_id (budget_goals db))"
  by (simp add: set_budget_goal_def Let_def)

lemma create_transaction_goals:
  "budget_goals (snd (create_transaction now t u db)) = budget_goals db"
  "budget_goals_seq (snd (create_transaction now t u db)) = budget_goals_seq db"
  by (simp_all add: create_transaction_def Let_def)

lemma delete_transaction_goals:
  "budget_goals (snd (delete_transaction i db)) = budget_goals db"
  "budget_goals_seq (snd (delete_transaction i db)) = budget_goals_seq db"
  by (simp_all add: delete_transaction_def Let_def)

lemma set_budget_goal_unique:
  assumes "goals_unique db"
  shows "goals_unique (set_budget_goal g u db)"
proof -
  let ?k = "(u, g_category g, g_month g, g_year g)"
  have "distinct (map goal_key (filter (\<lambda>x. goal_key x \<noteq> ?k) (budget_goals db)))"
    using assms unfolding goals_unique_def by (rule distinct_map_filter)
  moreover have "?k \<notin> set (map goal_key (filter (\<lambda>x. goal_key x \<noteq> ?k) (budget_goals db)))"
    by auto
  ultimately show ?thesis
    unfolding goals_unique_def set_budget_goal_rows by (simp add: goal_key_def)
qed

lemma reachable_goals_unique: "reachable db \<Longrightarrow> goals_unique db"
proof (induction rule: reachable.induct)
  case reach_init
  show ?case by (simp add: goals_unique_def init_database_def)
next
  case (reach_create db now transaction user_id)
  then show ?case by (simp add: goals_unique_def create_transaction_goals)
next
  case (reach_delete db transaction_id)
  then show ?case by (simp add: goals_unique_def delete_transaction_goals)
next
  case (reach_goal db budget_goal user_id)
  then show ?case by (simp add: set_budget_goal_unique)
qed

lemma set_budget_goal_ids_ok:
  assumes "goal_ids_ok db"
  shows "goal_ids_ok (set_budget_goal g u db)"
proof -
  let ?k = "(u, g_category g, g_month g, g_year g)"
  let ?i = "next_rowid (budget_goals_seq db) (map bg_id (budget_goals db))"
  let ?kept = "filter (\<lambda>x. goal_key x \<noteq> ?k) (budget_goals db)"
  have d: "distinct (map bg_id ?kept)"
    using assms unfolding goal_ids_ok_def by (simp add: distinct_map_filter)
  have fresh: "\<forall>x\<in>set (budget_goals db). bg_id x < ?i"
    by (simp add: next_rowid_fresh)
  then have "?i \<notin> set (map bg_id ?kept)" by auto
  moreover have "list_all (\<lambda>x. bg_id x \<le> ?i) ?kept"
    using fresh by (auto simp: list_all_iff intro: less_imp_le)
  ultimately show ?thesis
    unfolding goal_ids_ok_def set_budget_goal_rows set_budget_goal_seq using d by simp
qed

lemma reachable_goal_ids_ok: "reachable db \<Longrightarrow> goal_ids_ok db"
proof (induction rule: reachable.induct)
  case reach_init
  show ?case by (simp add: goal_ids_ok_def init_database_def)
next
  case (reach_create db now transaction user_id)
  then show ?case by (simp add: goal_ids_ok_def create_transaction_goals)
next
  case (reach_delete db transaction_id)
  then show ?case by (simp add: goal_ids_ok_def delete_transaction_goals)
next
  case (reach_goal db budget_goal user_id)
  then show ?case by (simp add: set_budget_goal_ids_ok)
qed

lemma set_budget_goal_one_row:
  "filter (\<lambda>x. goal_key x = (u, g_category g, g_month g, g_year g)) (budget_goals (set_budget_goal g u db)) =
     [\<lparr>bg_id = next_rowid (budget_goals_seq db) (map bg_id (budget_goals db)), bg_user_id = u,
       bg_category = g_category g, bg_amount = g_amount g, bg_month = g_month g,
       bg_year = g_year g\<rparr>]"
proof -
  let ?k = "(u, g_category g, g_month g, g_year g)"
  have "filter (\<lambda>x. goal_key x = ?k) (filter (\<lambda>x. goal_key x \<noteq> ?k) (budget_goals db)) = []"
    by (simp add: filter_empty_conv)
  then show ?thesis
    unfolding set_budget_goal_rows by (simp add: goal_key_def)
qed

lemma db_goal_rows:
  "budget_goals db_goal =
     [\<lparr>bg_id = 1, bg_user_id = ''default_user'', bg_category = ''food'', bg_amount = 300,
       bg_month = 1, bg_year = 2024\<rparr>]"
  by (simp add: db_goal_def set_budget_goal_def Let_def sample_goal_def default_user_def
      init_database_def next_rowid_def goal_key_def)

lemma db_goal_seq: "budget_goals_seq db_goal = 1"
  by (simp add: db_goal_def set_budget_goal_def Let_def init_database_def next_rowid_def)

lemma db_goal_reachable: "reachable db_goal"
  unfolding db_goal_def by (rule reach_goal [OF reach_init])

lemma db_goal_upsert_rows:
  "budget_goals (set_budget_goal (sample_goal ''food'' 120) default_user db_goal) =
     [\<lparr>bg_id = 2, bg_user_id = ''default_user'', bg_category = ''food'', bg_amount = 120,
       bg_month = 1, bg_year = 2024\<rparr>]"
  by (simp add: set_budget_goal_rows db_goal_rows db_goal_seq sample_goal_def default_user_def
      next_rowid_def goal_key_def)

section \<open>Claims about budget goals\<close>

text \<open>
  C6. Every store that the operations produce from a new database holds at most one goal
  per (owner, category, month, year); \<open>set_budget_goal\<close> preserves this; and after two
  upserts with the same key the table holds exactly one row with that key, carrying the
  amount of the second upsert.
\<close>

theorem budget_goal_upsert_unique:
  "(reachable db \<longrightarrow> goals_unique db)
   \<and> (goals_unique db \<longrightarrow> goals_unique (set_budget_goal g user_id db))
   \<and> (g_category g' = g_category g \<and> g_month g' = g_month g \<and> g_year g' = g_year g \<longrightarrow>
        (\<exists>row. filter (\<lambda>x. goal_key x = (user_id, g_category g, g_month g, g_year g))
                  (budget_goals (set_budget_goal g' user_id (set_budget_goal g user_id db))) = [row]
               \<and> bg_amount row = g_amount g'))"
proof (intro conjI impI)
  assume "reachable db"
  then show "goals_unique db" by (rule reachable_goals_unique)
next
  assume "goals_unique db"
  then show "goals_unique (set_budget_goal g user_id db)" by (rule set_budget_goal_unique)
next
  assume same: "g_category g' = g_category g \<and> g_month g' = g_month g \<and> g_year g' = g_year g"
  let ?db1 = "set_budget_goal g user_id db"
  let ?row = "\<lparr>bg_id = next_rowid (budget_goals_seq ?db1) (map bg_id (budget_goals ?db1)),
                bg_user_id = user_id, bg_category = g_category g', bg_amount = g_amount g',
                bg_month = g_month g', bg_year = g_year g'\<rparr>"
  have "filter (\<lambda>x. goal_key x = (user_id, g_category g', g_month g', g_year g'))
          (budget_goals (set_budget_goal g' user_id ?db1)) = [?row]"
    by (rule set_budget_goal_one_row)
  then have "filter (\<lambda>x. goal_key x = (user_id, g_category g, g_month g, g_year g))
          (budget_goals (set_budget_goal g' user_id ?db1)) = [?row] \<and> bg_amount ?row = g_amount g'"
    using same by simp
  then show "\<exists>row. filter (\<lambda>x. goal_key x = (user_id, g_category g, g_month g, g_year g))
                  (budget_goals (set_budget_goal g' user_id (set_budget_goal g user_id db))) = [row]
               \<and> bg_amount row = g_amount g'"
    by (rule exI [of _ ?row])
qed

theorem budget_goal_upsert_unique_witness:
  "goals_unique db_goal
   \<and> goals_unique (set_budget_goal (sample_goal ''food'' 120) default_user db_goal)
   \<and> budget_goals (set_budget_goal (sample_goal ''food'' 120) default_user db_goal) =
       [\<lparr>bg_id = 2, bg_user_id = ''default_user'', bg_category = ''food'', bg_amount = 120,
         bg_month = 1, bg_year = 2024\<rparr>]
   \<and> (\<exists>row. filter (\<lambda>x. goal_key x = (default_user, ''food'', 1, 2024))
                (budget_goals (set_budget_goal (sample_goal ''food'' 120) default_user db_goal)) = [row]
             \<and> bg_amount row = 120)"
proof -
  note inst = budget_goal_upsert_unique
      [of db_goal "sample_goal ''food'' 120" default_user "sample_goal ''food'' 120"]
  note inst0 = budget_goal_upsert_unique
      [of init_database "sample_goal ''food'' 300" default_user "sample_goal ''food'' 120"]
  have a: "goals_unique db_goal"
    using inst db_goal_reachable by blast
  have b: "goals_unique (set_budget_goal (sample_goal ''food'' 120) default_user db_goal)"
    using inst a by blast
  have same: "g_category (sample_goal ''food'' 120) = g_category (sample_goal ''food'' 300)
      \<and> g_month (sample_goal ''food'' 120) = g_month (sample_goal ''food'' 300)
      \<and> g_year (sample_goal ''food'' 120) = g_year (sample_goal ''food'' 300)"
    by (simp add: sample_goal_def)
  have "\<exists>row. filter (\<lambda>x. goal_key x = (default_user, g_category (sample_goal ''food'' 300),
                   g_month (sample_goal ''food'' 300), g_year (sample_goal ''food'' 300)))
                (budget_goals (set_budget_goal (sample_goal ''food'' 120) default_user
                   (set_budget_goal (sample_goal ''food'' 300) default_user init_database))) = [row]
             \<and> bg_amount row = g_amount (sample_goal ''food'' 120)"
    using inst0 same by blast
  then have c: "\<exists>row. filter (\<lambda>x. goal_key x = (default_user, ''food'', 1, 2024))
                (budget_goals (set_budget_goal (sample_goal ''food'' 120) default_user db_goal)) = [row]
             \<and> bg_amount row = 120"
    by (simp add: sample_goal_def db_goal_def)
  show ?thesis using a b c db_goal_upsert_rows by blast
qed

text \<open>
  C10. When \<open>set_budget_goal\<close> meets a row with the same key in a reachable store, the
  one row that then carries the key has the new amount and a new id: larger than the id of
  the replaced row, than every id in the table and than the recorded sequence value, which
  it becomes; the id of the replaced row is no longer in the table.
\<close>

theorem budget_goal_upsert_new_id:
  assumes "reachable db"
    and "r \<in> set (budget_goals db)"
    and "goal_key r = (user_id, g_category g, g_month g, g_year g)"
  shows "\<exists>row. filter (\<lambda>x. goal_key x = goal_key r) (budget_goals (set_budget_goal g user_id db)) = [row]
           \<and> bg_amount row = g_amount g
           \<and> bg_id r < bg_id row
           \<and> (\<forall>x\<in>set (budget_goals db). bg_id x < bg_id row)
           \<and> budget_goals_seq db < bg_id row
           \<and> budget_goals_seq (set_budget_goal g user_id db) = bg_id row
           \<and> bg_id r \<notin> set (map bg_id (budget_goals (set_budget_goal g user_id db)))"
proof -
  let ?i = "next_rowid (budget_goals_seq db) (map bg_id (budget_goals db))"
  let ?row = "\<lparr>bg_id = ?i, bg_user_id = user_id, bg_category = g_category g,
                bg_amount = g_amount g, bg_month = g_month g, bg_year = g_year g\<rparr>"
  let ?k = "(user_id, g_category g, g_month g, g_year g)"
  have one: "filter (\<lambda>x. goal_key x = goal_key r) (budget_goals (set_budget_goal g user_id db)) = [?row]"
    unfolding assms(3) by (rule set_budget_goal_one_row)
  have fresh: "\<forall>x\<in>set (budget_goals db). bg_id x < ?i"
    by (simp add: next_rowid_fresh)
  have seq: "budget_goals_seq db < ?i" by (rule next_rowid_seq)
  have dist: "distinct (map bg_id (budget_goals db))"
    using reachable_goal_ids_ok [OF assms(1)] by (simp add: goal_ids_ok_def)
  have "bg_id x \<noteq> bg_id r"
    if x: "x \<in> set (budget_goals db)" "goal_key x \<noteq> ?k" for x
  proof
    assume "bg_id x = bg_id r"
    then have "x = r"
      using dist x(1) assms(2) by (auto simp: distinct_map inj_on_def)
    then show False using x(2) assms(3) by simp
  qed
  then have kept: "bg_id r \<notin> bg_id ` set (filter (\<lambda>x. goal_key x \<noteq> ?k) (budget_goals db))"
    by fastforce
  have "bg_id r < ?i" using fresh assms(2) by blast
  then have "bg_id r \<noteq> ?i" by simp
  then have gone: "bg_id r \<notin> set (map bg_id (budget_goals (set_budget_goal g user_id db)))"
    unfolding set_budget_goal_rows using kept by simp
  show ?thesis
    using one fresh seq gone assms(2) set_budget_goal_seq [of g user_id db]
    by (intro exI [of _ ?row]) simp
qed

theorem budget_goal_upsert_new_id_witness:
  "\<exists>row. filter (\<lambda>x. goal_key x = (default_user, ''food'', 1, 2024))
            (budget_goals (set_budget_goal (sample_goal ''food'' 120) default_user db_goal)) = [row]
     \<and> bg_amount row = 120 \<and> 1 < bg_id row
     \<and> 1 \<notin> set (map bg_id (budget_goals (set_budget_goal (sample_goal ''food'' 120) default_user db_goal)))"
proof -
  let ?r = "\<lparr>bg_id = 1, bg_user_id = ''default_user'', bg_category = ''food'', bg_amount = 300,
       bg_month = 1, bg_year = 2024\<rparr>"
  have mem: "?r \<in> set (budget_goals db_goal)" by (simp add: db_goal_rows)
  have key: "goal_key ?r = (default_user, g_category (sample_goal ''food'' 120),
      g_month (sample_goal ''food'' 120), g_year (sample_goal ''food'' 120))"
    by (simp add: goal_key_def sample_goal_def default_user_def)
  have key': "goal_key ?r = (default_user, ''food'', 1, 2024)"
    by (simp add: goal_key_def default_user_def)
  show ?thesis
    using budget_goal_upsert_new_id [OF db_goal_reachable mem key] unfolding key'
    by (auto simp: sample_goal_def)
qed

section \<open>Grouping lemmas\<close>

lemma group_keys_set: "set (group_keys ks) = set ks"
  by (induction ks) auto

lemma group_keys_distinct: "distinct (group_keys ks)"
  by (induction ks) (auto simp: group_keys_set)

lemma group_by_keys: "map fst (group_by key rows) = group_keys (map key rows)"
  by (simp add: group_by_def comp_def)

lemma sum_list_indicator:
  "distinct ks \<Longrightarrow> a \<in> set ks \<Longrightarrow> sum_list (map (\<lambda>k. if a = k then c else 0) ks) = (c :: rat)"
proof (induction ks)
  case Nil
  then show ?case by simp
next
  case (Cons k ks)
  show ?case
  proof (cases "a = k")
    case True
    then have "a \<notin> set ks" using Cons.prems by simp
    then have "sum_list (map (\<lambda>k. if a = k then c else 0) ks) = 0"
      by (induction ks) auto
    then show ?thesis using True by simp
  next
    case False
    then show ?thesis using Cons by simp
  qed
qed

lemma sum_over_groups:
  "distinct ks \<Longrightarrow> key ` set rows \<subseteq> set ks \<Longrightarrow>
     sum_list (map (\<lambda>k. sum_list (map f (filter (\<lambda>r. key r = k) rows))) ks)
       = (sum_list (map f rows) :: rat)"
proof (induction rows)
  case Nil
  show ?case by simp
next
  case (Cons r rows)
  have split: "sum_list (map f (filter (\<lambda>x. key x = k) (r # rows)))
      = (if key r = k then f r else 0) + sum_list (map f (filter (\<lambda>x. key x = k) rows))" for k
    by simp
  have "sum_list (map (\<lambda>k. sum_list (map f (filter (\<lambda>x. key x = k) (r # rows)))) ks)
      = sum_list (map (\<lambda>k. if key r = k then f r else 0) ks)
        + sum_list (map (\<lambda>k. sum_list (map f (filter (\<lambda>x. key x = k) rows))) ks)"
    unfolding split by (rule sum_list_addf)
  also have "sum_list (map (\<lambda>k. if key r = k then f r else 0) ks) = f r"
    using Cons.prems by (intro sum_list_indicator) auto
  also have "sum_list (map (\<lambda>k. sum_list (map f (filter (\<lambda>x. key x = k) rows))) ks)
      = sum_list (map f rows)"
    using Cons by simp
  finally show ?case by simp
qed

lemma group_by_sum:
  "sum_list (map (\<lambda>(k, grp). sum_list (map f grp)) (group_by key rows)) = (sum_list (map f rows) :: rat)"
proof -
  have "sum_list (map (\<lambda>(k, grp). sum_list (map f grp)) (group_by key rows))
      = sum_list (map (\<lambda>k. sum_list (map f (filter (\<lambda>r. key r = k) rows))) (group_keys (map key rows)))"
    by (simp add: group_by_def comp_def)
  also have "\<dots> = sum_list (map f rows)"
    by (rule sum_over_groups) (simp_all add: group_keys_distinct group_keys_set)
  finally show ?thesis .
qed

lemma dict_set_new: "k \<notin> set (map fst d) \<Longrightarrow> dict_set d k v = d @ [(k, v)]"
  by (induction d) auto

lemma dict_of_acc:
  "distinct (map fst (d @ rows)) \<Longrightarrow> foldl (\<lambda>d (k, v). dict_set d k v) d rows = d @ rows"
proof (induction rows arbitrary: d)
  case Nil
  show ?case by simp
next
  case (Cons kv rows)
  obtain k v where kv: "kv = (k, v)" by (cases kv)
  have "k \<notin> set (map fst d)" using Cons.prems kv by auto
  then have "dict_set d k v = d @ [(k, v)]" by (rule dict_set_new)
  moreover have "distinct (map fst ((d @ [(k, v)]) @ rows))" using Cons.prems kv by simp
  ultimately show ?case using Cons.IH [of "d @ [(k, v)]"] kv by simp
qed

lemma dict_of_distinct: "distinct (map fst rows) \<Longrightarrow> dict_of rows = rows"
  unfolding dict_of_def using dict_of_acc [of "[]" rows] by simp

lemma actual_spending_query_keys:
  "map fst (actual_spending_query m y rows) = group_keys (map tx_category (period_expenses m y rows))"
  by (simp add: actual_spending_query_def group_by_def comp_def)

lemma actual_spending_of_eq:
  "actual_spending_of m y db = actual_spending_query m y (transactions db)"
  unfolding actual_spending_of_def
  by (rule dict_of_distinct) (simp add: actual_spending_query_keys group_keys_distinct)

lemma actual_spending_total:
  "sum_list (dict_values (actual_spending_of m y db))
     = sum_list (map tx_amount (period_expenses m y (transactions db)))"
proof -
  have "map snd (actual_spending_query m y (transactions db))
      = map (\<lambda>(k, grp). sum_list (map tx_amount grp))
          (group_by tx_category (period_expenses m y (transactions db)))"
    by (simp add: actual_spending_query_def comp_def case_prod_beta)
  then show ?thesis
    unfolding actual_spending_of_eq dict_values_def by (simp add: group_by_sum)
qed

lemma dict_get_groups:
  "dict_get (map (\<lambda>k. (k, g k)) ks) c dflt = (if c \<in> set ks then g c else dflt)"
  by (induction ks) auto

lemma actual_spending_get:
  "dict_get (actual_spending_of m y db) c 0
     = sum_list (map tx_amount (filter (\<lambda>r. tx_category r = c) (period_expenses m y (transactions db))))"
proof -
  let ?rows = "period_expenses m y (transactions db)"
  have q: "actual_spending_query m y (transactions db)
      = map (\<lambda>k. (k, sum_list (map tx_amount (filter (\<lambda>r. tx_category r = k) ?rows))))
          (group_keys (map tx_category ?rows))"
    by (simp add: actual_spending_query_def group_by_def)
  show ?thesis
  proof (cases "c \<in> set (map tx_category ?rows)")
    case True
    then show ?thesis
      unfolding actual_spending_of_eq q dict_get_groups by (simp add: group_keys_set)
  next
    case False
    then have "filter (\<lambda>r. tx_category r = c) ?rows = []"
      by (auto simp: filter_empty_conv)
    then show ?thesis
      unfolding actual_spending_of_eq q dict_get_groups using False by (simp add: group_keys_set)
  qed
qed

section \<open>Budget performance lemmas\<close>

lemma performance_entry_of_ok:
  "performance_entry_of a c b = Inr (entry_for a c b)"
  by (simp add: performance_entry_of_def entry_for_def py_div_def Let_def)

lemma performance_loop_ok:
  "performance_loop a items = Inr (map (\<lambda>(c, b). entry_for a c b) items)"
  by (induction items) (auto simp: performance_entry_of_ok)

lemma get_budget_performance_ok:
  "get_budget_performance m y db =
     Inr \<lparr>budget_performance =
            map (\<lambda>(c, b). entry_for (actual_spending_of m y db) c b) (budget_dict_of m y db),
          total_budget = sum_list (dict_values (budget_dict_of m y db)),
          total_spent = sum_list (dict_values (actual_spending_of m y db)),
          overall_status =
            (if sum_list (dict_values (actual_spending_of m y db))
                  \<le> sum_list (dict_values (budget_dict_of m y db))
             then ''within_budget'' else ''over_budget'')\<rparr>"
  by (simp add: get_budget_performance_def performance_loop_ok Let_def)

lemma period_goals_distinct:
  assumes "distinct (map goal_key gs)"
  shows "distinct (map bg_category
           (filter (\<lambda>g. bg_user_id g = u \<and> bg_month g = m \<and> bg_year g = y) gs))"
proof -
  let ?fs = "filter (\<lambda>g. bg_user_id g = u \<and> bg_month g = m \<and> bg_year g = y) gs"
  have d: "distinct (map goal_key ?fs)"
    using assms by (rule distinct_map_filter)
  then have dist: "distinct ?fs" and inj: "inj_on goal_key (set ?fs)"
    by (simp_all add: distinct_map)
  have "inj_on bg_category (set ?fs)"
  proof (rule inj_onI)
    fix a b
    assume a: "a \<in> set ?fs" and b: "b \<in> set ?fs" and eq: "bg_category a = bg_category b"
    then have "goal_key a = goal_key b" by (simp add: goal_key_def)
    with inj a b show "a = b" unfolding inj_on_def by blast
  qed
  then show ?thesis using dist by (simp add: distinct_map)
qed

lemma budget_dict_unique:
  assumes "goals_unique db" and "0 < m" and "0 < y"
  shows "budget_dict_of m y db =
     map (\<lambda>g. (bg_category g, bg_amount g))
       (filter (\<lambda>g. bg_user_id g = default_user \<and> bg_month g = int m \<and> bg_year g = int y)
          (budget_goals db))"
proof -
  let ?fs = "filter (\<lambda>g. bg_user_id g = default_user \<and> bg_month g = int m \<and> bg_year g = int y)
          (budget_goals db)"
  have g: "get_budget_goals default_user (Some (int m)) (Some (int y)) db = ?fs"
    using assms(2,3) by (simp add: get_budget_goals_def)
  have "distinct (map bg_category ?fs)"
    using assms(1) unfolding goals_unique_def by (rule period_goals_distinct)
  then have "distinct (map fst (map (\<lambda>g. (bg_category g, bg_amount g)) ?fs))"
    by (simp add: comp_def)
  then show ?thesis
    unfolding budget_dict_of_def g by (rule dict_of_distinct)
qed

lemma dict_of_acc_keys_distinct:
  "distinct (map fst d) \<Longrightarrow> distinct (map fst (foldl (\<lambda>d (k, v). dict_set d k v) d rows))"
  by (induction rows arbitrary: d) (auto simp: dict_set_distinct)

lemma dict_of_keys_distinct: "distinct (dict_keys (dict_of rows))"
  unfolding dict_of_def dict_keys_def using dict_of_acc_keys_distinct [of "[]" rows] by simp

lemma entries_items:
  "map (\<lambda>e. (p_category e, p_budget e)) (map (\<lambda>(c, b). entry_for a c b) items) = items"
  by (induction items) (auto simp: entry_for_def)

lemma entries_categories:
  "map p_category (map (\<lambda>(c, b). entry_for a c b) items) = map fst items"
  by (induction items) (auto simp: entry_for_def)

lemma entries_member:
  "e \<in> set (map (\<lambda>(c, b). entry_for a c b) items) \<Longrightarrow> \<exists>c b. e = entry_for a c b"
  by (induction items) auto

lemma db_budget_goals:
  "budget_goals db_budget =
     [\<lparr>bg_id = 1, bg_user_id = ''default_user'', bg_category = ''food'', bg_amount = 300,
       bg_month = 1, bg_year = 2024\<rparr>,
      \<lparr>bg_id = 2, bg_user_id = ''default_user'', bg_category = ''fun'', bg_amount = 0,
       bg_month = 1, bg_year = 2024\<rparr>]"
  by (simp add: db_budget_def create_transaction_def Let_def set_budget_goal_rows db_goal_rows
      db_goal_seq sample_goal_def default_user_def next_rowid_def goal_key_def)

lemma db_budget_rows:
  "transactions db_budget =
     [\<lparr>tx_id = 1, tx_user_id = ''default_user'', tx_type = ''expense'', tx_category = ''food'',
       tx_amount = 250, tx_description = None, tx_date = (2024, 1, 10), tx_created_at = 5\<rparr>,
      \<lparr>tx_id = 2, tx_user_id = ''bob'', tx_type = ''expense'', tx_category = ''fun'',
       tx_amount = 40, tx_description = None, tx_date = (2024, 1, 12), tx_created_at = 6\<rparr>]"
  by (simp add: db_budget_def create_transaction_def Let_def set_budget_goal_def db_goal_def
      init_database_def sample_tx_def default_user_def next_rowid_def)

lemma db_budget_reachable: "reachable db_budget"
  unfolding db_budget_def
  by (intro reach_create reach_goal db_goal_reachable)

lemma db_budget_period:
  "period_expenses 1 2024 (transactions db_budget) = transactions db_budget"
  by (simp add: period_expenses_def db_budget_rows date_month_def date_year_def)

lemma db_budget_dict: "budget_dict_of 1 2024 db_budget = [(''food'', 300), (''fun'', 0)]"
  by (simp add: budget_dict_of_def get_budget_goals_def db_budget_goals default_user_def dict_of_def)

lemma db_budget_actual: "actual_spending_of 1 2024 db_budget = [(''food'', 250), (''fun'', 40)]"
  unfolding actual_spending_of_eq actual_spending_query_def db_budget_period
  by (simp add: db_budget_rows group_by_def)

section \<open>Claims about the budget performance engine\<close>

text \<open>
  C2. \<open>get_budget_performance\<close> always returns a report (no exception, in particular no
  division by zero). Its entries are, one for one, the items of the period's budget-goal
  mapping, with distinct categories. In each entry \<open>actual\<close> is the value of the
  actual-spending mapping for the category, or 0 when absent, which is the sum of the
  period's expense amounts of that category; \<open>difference\<close> is \<open>budget - actual\<close>;
  \<open>percentage_used\<close> is \<open>actual / budget * 100\<close> when \<open>budget > 0\<close> and 0 otherwise;
  \<open>status\<close> is \<open>over_budget\<close> exactly when \<open>actual > budget\<close>, else \<open>within_budget\<close>.
\<close>

theorem budget_performance_entries:
  "\<exists>rep. get_budget_performance m y db = Inr rep
     \<and> map (\<lambda>e. (p_category e, p_budget e)) (budget_performance rep) = budget_dict_of m y db
     \<and> distinct (map p_category (budget_performance rep))
     \<and> (\<forall>e\<in>set (budget_performance rep).
          p_actual e = dict_get (actual_spending_of m y db) (p_category e) 0
        \<and> p_actual e = sum_list (map tx_amount
              (filter (\<lambda>r. tx_category r = p_category e) (period_expenses m y (transactions db))))
        \<and> p_difference e = p_budget e - p_actual e
        \<and> p_percentage_used e = (if p_budget e > 0 then p_actual e / p_budget e * 100 else 0)
        \<and> p_status e = (if p_actual e > p_budget e then ''over_budget'' else ''within_budget''))"
proof -
  let ?a = "actual_spending_of m y db"
  let ?b = "budget_dict_of m y db"
  let ?es = "map (\<lambda>(c, b). entry_for ?a c b) ?b"
  let ?rep = "\<lparr>budget_performance = ?es,
          total_budget = sum_list (dict_values ?b),
          total_spent = sum_list (dict_values ?a),
          overall_status =
            (if sum_list (dict_values ?a) \<le> sum_list (dict_values ?b)
             then ''within_budget'' else ''over_budget'')\<rparr>"
  have rep: "get_budget_performance m y db = Inr ?rep"
    by (rule get_budget_performance_ok)
  have items: "map (\<lambda>e. (p_category e, p_budget e)) ?es = ?b"
    by (rule entries_items)
  have cats: "map p_category ?es = dict_keys ?b"
    unfolding dict_keys_def by (rule entries_categories)
  have dist: "distinct (map p_category ?es)"
  proof -
    have "distinct (dict_keys ?b)"
      unfolding budget_dict_of_def by (rule dict_of_keys_distinct)
    then show ?thesis by (simp only: cats)
  qed
  have each: "p_actual e = dict_get ?a (p_category e) 0
        \<and> p_actual e = sum_list (map tx_amount
              (filter (\<lambda>r. tx_category r = p_category e) (period_expenses m y (transactions db))))
        \<and> p_difference e = p_budget e - p_actual e
        \<and> p_percentage_used e = (if p_budget e > 0 then p_actual e / p_budget e * 100 else 0)
        \<and> p_status e = (if p_actual e > p_budget e then ''over_budget'' else ''within_budget'')"
    if mem: "e \<in> set ?es" for e
  proof -
    obtain c b where e: "e = entry_for ?a c b" using entries_member [OF mem] by blast
    have "p_actual e = dict_get ?a (p_category e) 0"
      unfolding e by (simp add: entry_for_def)
    then show ?thesis
      using actual_spending_get [of m y db "p_category e"] unfolding e
      by (simp add: entry_for_def)
  qed
  have fields: "budget_performance ?rep = ?es" by simp
  have i: "map (\<lambda>e. (p_category e, p_budget e)) (budget_performance ?rep) = ?b"
    unfolding fields by (rule items)
  have d: "distinct (map p_category (budget_performance ?rep))"
    unfolding fields by (rule dist)
  have all: "\<forall>e\<in>set (budget_performance ?rep).
          p_actual e = dict_get ?a (p_category e) 0
        \<and> p_actual e = sum_list (map tx_amount
              (filter (\<lambda>r. tx_category r = p_category e) (period_expenses m y (transactions db))))
        \<and> p_difference e = p_budget e - p_actual e
        \<and> p_percentage_used e = (if p_budget e > 0 then p_actual e / p_budget e * 100 else 0)
        \<and> p_status e = (if p_actual e > p_budget e then ''over_budget'' else ''within_budget'')"
    unfolding fields using each by blast
  show ?thesis
    by (intro exI [of _ ?rep] conjI rep i d all)
qed

theorem budget_performance_entries_witness:
  "\<exists>rep. get_budget_performance 1 2024 db_budget = Inr rep
     \<and> map p_category (budget_performance rep) = [''food'', ''fun'']
     \<and> map p_budget (budget_performance rep) = [300, 0]
     \<and> map p_actual (budget_performance rep) = [250, 40]
     \<and> map p_difference (budget_performance rep) = [50, - 40]
     \<and> map p_percentage_used (budget_performance rep) = [250 / 3, 0]
     \<and> map p_status (budget_performance rep) = [''within_budget'', ''over_budget'']"
proof -
  obtain rep where rep: "get_budget_performance 1 2024 db_budget = Inr rep"
    and items: "map (\<lambda>e. (p_category e, p_budget e)) (budget_performance rep) = budget_dict_of 1 2024 db_budget"
    and each: "\<forall>e\<in>set (budget_performance rep).
          p_actual e = dict_get (actual_spending_of 1 2024 db_budget) (p_category e) 0
        \<and> p_actual e = sum_list (map tx_amount
              (filter (\<lambda>r. tx_category r = p_category e) (period_expenses 1 2024 (transactions db_budget))))
        \<and> p_difference e = p_budget e - p_actual e
        \<and> p_percentage_used e = (if p_budget e > 0 then p_actual e / p_budget e * 100 else 0)
        \<and> p_status e = (if p_actual e > p_budget e then ''over_budget'' else ''within_budget'')"
    using budget_performance_entries [of 1 2024 db_budget] by blast
  from items obtain e1 e2 where es: "budget_performance rep = [e1, e2]"
    and e1: "p_category e1 = ''food''" "p_budget e1 = 300"
    and e2: "p_category e2 = ''fun''" "p_budget e2 = 0"
    unfolding db_budget_dict by auto
  have act: "actual_spending_of (Suc 0) 2024 db_budget = [(''food'', 250), (''fun'', 40)]"
    using db_budget_actual by simp
  have a1: "p_actual e1 = 250" and a2: "p_actual e2 = 40"
    using each es e1 e2 by (simp_all add: act)
  have "p_difference e1 = 50" "p_difference e2 = - 40"
    "p_percentage_used e1 = 250 / 3" "p_percentage_used e2 = 0"
    "p_status e1 = ''within_budget''" "p_status e2 = ''over_budget''"
    using each es e1 e2 a1 a2 by simp_all
  then show ?thesis
    using rep es e1 e2 a1 a2 by simp
qed

text \<open>
  C3 (as amended). In the report, \<open>total_budget\<close> is the sum of the values of the
  budget-goal mapping, which in a store with at most one goal per key is the sum of the
  amounts of the goals that \<open>get_budget_goals\<close> returns for the period; \<open>total_spent\<close> is
  the sum of the values of the whole actual-spending mapping, which in exact arithmetic is
  the sum of all expense amounts of the period, whether or not their category has a goal;
  \<open>overall_status\<close> is \<open>within_budget\<close> exactly when \<open>total_spent <= total_budget\<close>, else
  \<open>over_budget\<close>. For totals that are numbers this is \<open>over_budget\<close> exactly when
  \<open>total_spent > total_budget\<close>. On floats a total can be \<open>nan\<close>, which compares false
  with everything: then the status is \<open>over_budget\<close>, whatever the other total is. (When
  SQLite's \<open>SUM\<close> of a category is NULL, as for the amounts \<open>inf\<close> and \<open>-inf\<close>, the
  built-in sum raises \<open>TypeError\<close> and the endpoint answers \<open>HTTPException(500)\<close>; the
  exact amounts of the store have no such case.)
\<close>

theorem budget_performance_totals:
  "(\<exists>rep. get_budget_performance m y db = Inr rep
     \<and> total_budget rep = sum_list (dict_values (budget_dict_of m y db))
     \<and> (goals_unique db \<and> 0 < m \<and> 0 < y \<longrightarrow>
          total_budget rep = sum_list (map bg_amount
            (filter (\<lambda>g. bg_user_id g = default_user \<and> bg_month g = int m \<and> bg_year g = int y)
               (budget_goals db))))
     \<and> total_spent rep = sum_list (dict_values (actual_spending_of m y db))
     \<and> total_spent rep = sum_list (map tx_amount (period_expenses m y (transactions db)))
     \<and> overall_status rep =
          (if total_spent rep \<le> total_budget rep then ''within_budget'' else ''over_budget'')
     \<and> overall_status rep =
          (if total_spent rep > total_budget rep then ''over_budget'' else ''within_budget'')
     \<and> overall_status rep =
          overall_status_in (+) 0 (\<le>) (dict_values (budget_dict_of m y db))
            (dict_values (actual_spending_of m y db)))
   \<and> overall_status_in py_add (Finite 0) py_le budget_values actual_values =
       (if py_sum_in py_add (Finite 0) actual_values = NaN
           \<or> py_sum_in py_add (Finite 0) budget_values = NaN
        then ''over_budget''
        else if py_lt (py_sum_in py_add (Finite 0) budget_values)
                  (py_sum_in py_add (Finite 0) actual_values)
             then ''over_budget'' else ''within_budget'')"
proof -
  let ?a = "actual_spending_of m y db"
  let ?b = "budget_dict_of m y db"
  let ?rep = "\<lparr>budget_performance = map (\<lambda>(c, b). entry_for ?a c b) ?b,
          total_budget = sum_list (dict_values ?b),
          total_spent = sum_list (dict_values ?a),
          overall_status =
            (if sum_list (dict_values ?a) \<le> sum_list (dict_values ?b)
             then ''within_budget'' else ''over_budget'')\<rparr>"
  have rep: "get_budget_performance m y db = Inr ?rep"
    by (rule get_budget_performance_ok)
  have goals: "sum_list (dict_values ?b) = sum_list (map bg_amount
            (filter (\<lambda>g. bg_user_id g = default_user \<and> bg_month g = int m \<and> bg_year g = int y)
               (budget_goals db)))"
    if "goals_unique db \<and> 0 < m \<and> 0 < y"
    using that budget_dict_unique [of db m y] by (simp add: dict_values_def comp_def)
  have spent: "sum_list (dict_values ?a) = sum_list (map tx_amount (period_expenses m y (transactions db)))"
    by (rule actual_spending_total)
  have le: "overall_status ?rep =
          (if total_spent ?rep \<le> total_budget ?rep then ''within_budget'' else ''over_budget'')"
    by simp
  have status: "overall_status ?rep =
          (if total_spent ?rep > total_budget ?rep then ''over_budget'' else ''within_budget'')"
    by (simp add: not_le [symmetric])
  have line: "overall_status ?rep = overall_status_in (+) 0 (\<le>) (dict_values ?b) (dict_values ?a)"
    by (simp add: overall_status_exact)
  have tb: "total_budget ?rep = sum_list (dict_values ?b)" by simp
  have ts: "total_spent ?rep = sum_list (dict_values ?a)" by simp
  have g: "goals_unique db \<and> 0 < m \<and> 0 < y \<longrightarrow>
          total_budget ?rep = sum_list (map bg_amount
            (filter (\<lambda>g. bg_user_id g = default_user \<and> bg_month g = int m \<and> bg_year g = int y)
               (budget_goals db)))"
    unfolding tb using goals by blast
  have sp: "total_spent ?rep = sum_list (map tx_amount (period_expenses m y (transactions db)))"
    unfolding ts by (rule spent)
  have float: "overall_status_in py_add (Finite 0) py_le budget_values actual_values =
       (if py_sum_in py_add (Finite 0) actual_values = NaN
           \<or> py_sum_in py_add (Finite 0) budget_values = NaN
        then ''over_budget''
        else if py_lt (py_sum_in py_add (Finite 0) budget_values)
                  (py_sum_in py_add (Finite 0) actual_values)
             then ''over_budget'' else ''within_budget'')"
    by (simp add: overall_status_in_def py_le_lt)
  show ?thesis
    by (intro exI [of _ ?rep] conjI rep tb g ts sp le status line float)
qed

theorem budget_performance_totals_witness:
  "(\<exists>rep. get_budget_performance 1 2024 db_budget = Inr rep
     \<and> total_budget rep = 300 \<and> total_spent rep = 290
     \<and> overall_status rep = ''within_budget'')
   \<and> overall_status_in py_add (Finite 0) py_le [Finite 300] [Finite 250, Finite 40]
       = ''within_budget''"
proof -
  have hyp: "goals_unique db_budget \<and> 0 < (1::nat) \<and> 0 < (2024::nat)"
    using reachable_goals_unique [OF db_budget_reachable] by simp
  note inst = budget_performance_totals [of 1 2024 db_budget "[Finite 300]" "[Finite 250, Finite 40]"]
  obtain rep where rep: "get_budget_performance 1 2024 db_budget = Inr rep"
    and tb: "total_budget rep = sum_list (map bg_amount
            (filter (\<lambda>g. bg_user_id g = default_user \<and> bg_month g = int 1 \<and> bg_year g = int 2024)
               (budget_goals db_budget)))"
    and ts: "total_spent rep = sum_list (map tx_amount (period_expenses 1 2024 (transactions db_budget)))"
    and st: "overall_status rep =
          (if total_spent rep > total_budget rep then ''over_budget'' else ''within_budget'')"
    using inst hyp by blast
  have b: "total_budget rep = 300"
    unfolding tb by (simp add: db_budget_goals default_user_def)
  have s: "total_spent rep = 290"
    unfolding ts db_budget_period by (simp add: db_budget_rows)
  have exact: "\<exists>rep. get_budget_performance 1 2024 db_budget = Inr rep
     \<and> total_budget rep = 300 \<and> total_spent rep = 290
     \<and> overall_status rep = ''within_budget''"
    using rep b s st by simp
  have sa: "py_sum_in py_add (Finite 0) [Finite 250, Finite 40] = Finite 290"
    by (simp add: py_sum_in_def f64_eval)
  have sb: "py_sum_in py_add (Finite 0) [Finite 300] = Finite 300"
    by (simp add: py_sum_in_def f64_eval)
  have float: "overall_status_in py_add (Finite 0) py_le [Finite 300] [Finite 250, Finite 40]
       = ''within_budget''"
    using inst unfolding sa sb by simp
  show ?thesis
    by (intro conjI exact float)
qed

text \<open>
  C3 as stated fails on floats: with the goals \<open>inf\<close> and \<open>-inf\<close> for two categories of
  the period and no expense, \<open>total_budget\<close> is \<open>inf + -inf = nan\<close> and \<open>total_spent\<close>
  is 0. \<open>total_spent > total_budget\<close> is false, yet \<open>total_spent <= total_budget\<close> is
  false too, and the status is \<open>over_budget\<close>.
\<close>

theorem nan_total_over_budget:
  "py_sum_in py_add (Finite 0) [PosInf, NegInf] = NaN
   \<and> py_sum_in py_add (Finite 0) [] = Finite 0
   \<and> \<not> py_lt (py_sum_in py_add (Finite 0) [PosInf, NegInf]) (py_sum_in py_add (Finite 0) [])
   \<and> overall_status_in py_add (Finite 0) py_le [PosInf, NegInf] [] = ''over_budget''"
  by (simp add: overall_status_in_def py_sum_in_def)

section \<open>Owner column lemmas\<close>

lemma group_by_map:
  "group_by key (map g rows) = map (\<lambda>(k, grp). (k, map g grp)) (group_by (\<lambda>r. key (g r)) rows)"
  by (simp add: group_by_def filter_map comp_def)

lemma year_month_relabel: "year_month (r\<lparr>tx_user_id := u\<rparr>) = year_month r"
  by (simp add: year_month_def)

lemma monthly_query_relabel:
  "monthly_query c6 (map (\<lambda>r. r\<lparr>tx_user_id := f r\<rparr>) rows) = monthly_query c6 rows"
  by (simp add: monthly_query_def filter_map comp_def group_by_map year_month_relabel
      case_prod_unfold cong: if_cong)

lemma recent_expenses_relabel:
  "recent_expenses c30 (map (\<lambda>r. r\<lparr>tx_user_id := f r\<rparr>) rows)
     = map (\<lambda>r. r\<lparr>tx_user_id := f r\<rparr>) (recent_expenses c30 rows)"
  by (simp add: recent_expenses_def filter_map comp_def)

lemma category_query_relabel:
  "category_query c30 (map (\<lambda>r. r\<lparr>tx_user_id := f r\<rparr>) rows) = category_query c30 rows"
  by (simp add: category_query_def recent_expenses_relabel group_by_map comp_def case_prod_unfold)

lemma daily_query_relabel:
  "daily_query c30 dow (map (\<lambda>r. r\<lparr>tx_user_id := f r\<rparr>) rows) = daily_query c30 dow rows"
  by (simp add: daily_query_def recent_expenses_relabel group_by_map comp_def case_prod_unfold)

lemma get_spending_trends_relabel:
  "get_spending_trends c6 c30 dow (relabel_owner f db) = get_spending_trends c6 c30 dow db"
  by (simp add: get_spending_trends_def relabel_owner_def monthly_query_relabel
      category_query_relabel daily_query_relabel)

lemma period_expenses_relabel:
  "period_expenses m y (map (\<lambda>r. r\<lparr>tx_user_id := f r\<rparr>) rows)
     = map (\<lambda>r. r\<lparr>tx_user_id := f r\<rparr>) (period_expenses m y rows)"
  by (simp add: period_expenses_def filter_map comp_def)

lemma actual_spending_query_relabel:
  "actual_spending_query m y (map (\<lambda>r. r\<lparr>tx_user_id := f r\<rparr>) rows) = actual_spending_query m y rows"
  by (simp add: actual_spending_query_def period_expenses_relabel group_by_map comp_def case_prod_unfold)

lemma get_budget_performance_relabel:
  "get_budget_performance m y (relabel_owner f db) = get_budget_performance m y db"
  by (simp add: get_budget_performance_def actual_spending_of_def budget_dict_of_def
      get_budget_goals_def relabel_owner_def actual_spending_query_relabel)

lemma create_transaction_rows:
  "transactions (snd (create_transaction now t u db)) =
     transactions db @
     [\<lparr>tx_id = next_rowid (transactions_seq db) (map tx_id (transactions db)), tx_user_id = u,
       tx_type = type_value (t_type t), tx_category = t_category t, tx_amount = t_amount t,
       tx_description = t_description t, tx_date = t_date t, tx_created_at = now\<rparr>]"
  by (simp add: create_transaction_def Let_def)

lemma total_spent_after_create:
  assumes "t_type t = EXPENSE" "date_month (t_date t) = m" "date_year (t_date t) = y" "1000 \<le> y"
  shows "sum_list (dict_values (actual_spending_of m y (snd (create_transaction now t u db))))
     = sum_list (dict_values (actual_spending_of m y db)) + t_amount t"
  unfolding actual_spending_total create_transaction_rows
  using assms by (simp add: period_expenses_def)

lemma listing_other_owner:
  "user_id \<noteq> u \<Longrightarrow>
     get_transactions u limit (snd (create_transaction now t user_id db)) = get_transactions u limit db"
  by (simp add: get_transactions_def ordered_rows_def create_transaction_rows)

lemma db_bob_rows:
  "transactions db_bob =
     [\<lparr>tx_id = 1, tx_user_id = ''default_user'', tx_type = ''expense'', tx_category = ''food'',
       tx_amount = 200, tx_description = None, tx_date = (2024, 1, 10), tx_created_at = 5\<rparr>,
      \<lparr>tx_id = 2, tx_user_id = ''bob'', tx_type = ''expense'', tx_category = ''fun'',
       tx_amount = 40, tx_description = None, tx_date = (2024, 1, 10), tx_created_at = 6\<rparr>]"
  by (simp add: db_bob_def create_transaction_rows db_one_rows sample_tx_def next_rowid_def
      db_one_def create_transaction_def init_database_def default_user_def Let_def)

lemma db_bob_monthly:
  "monthly_trends (get_spending_trends (2023, 7, 10) (2023, 12, 11) dow db_bob)
     \<noteq> monthly_trends (get_spending_trends (2023, 7, 10) (2023, 12, 11) dow db_one)"
  by (simp add: get_spending_trends_def monthly_query_def db_bob_rows db_one_rows group_by_def
      year_month_def date_year_def date_month_def order_by_def)

lemma db_bob_category:
  "category_trends (get_spending_trends (2023, 7, 10) (2023, 12, 11) dow db_bob)
     \<noteq> category_trends (get_spending_trends (2023, 7, 10) (2023, 12, 11) dow db_one)"
  by (simp add: get_spending_trends_def category_query_def recent_expenses_def db_bob_rows
      db_one_rows group_by_def order_by_def)

lemma db_bob_daily:
  "daily_patterns (get_spending_trends (2023, 7, 10) (2023, 12, 11) dow db_bob)
     \<noteq> daily_patterns (get_spending_trends (2023, 7, 10) (2023, 12, 11) dow db_one)"
  by (simp add: get_spending_trends_def daily_query_def recent_expenses_def db_bob_rows
      db_one_rows group_by_def order_by_def sql_avg_def)

lemma report_total_spent:
  "\<exists>rep. get_budget_performance m y db = Inr rep
     \<and> total_spent rep = sum_list (dict_values (actual_spending_of m y db))"
  unfolding get_budget_performance_ok by simp

section \<open>Claim about the owner of the analysed transactions\<close>

text \<open>
  C9. The trend queries and the budget performance do not read the owner of a
  transaction: rewriting the \<open>user_id\<close> column in any way changes neither result. So
  they are not scoped to one owner: an expense of the period that any user records raises
  \<open>total_spent\<close> of the budget performance by its amount, while the listing of every
  other owner stays as it was; and for the two stores \<open>db_one\<close> and \<open>db_bob\<close>, which
  differ only in one transaction recorded under another \<open>user_id\<close>, the listing of the
  default user is the same but the monthly, the category and the daily trends all differ
  (whatever the weekday function is).
\<close>

theorem analytics_ignore_owner:
  "get_spending_trends c6 c30 dow (relabel_owner f db) = get_spending_trends c6 c30 dow db
   \<and> get_budget_performance m y (relabel_owner f db) = get_budget_performance m y db
   \<and> (t_type t = EXPENSE \<and> date_month (t_date t) = m \<and> date_year (t_date t) = y \<and> 1000 \<le> y \<longrightarrow>
        (\<exists>rep rep'. get_budget_performance m y db = Inr rep
           \<and> get_budget_performance m y (snd (create_transaction now t user_id db)) = Inr rep'
           \<and> total_spent rep' = total_spent rep + t_amount t))
   \<and> (user_id \<noteq> u \<longrightarrow>
        get_transactions u limit (snd (create_transaction now t user_id db)) = get_transactions u limit db)
   \<and> db_bob = snd (create_transaction 6 (sample_tx EXPENSE ''fun'' 40 (2024, 1, 10)) ''bob'' db_one)
   \<and> get_transactions default_user limit db_bob = get_transactions default_user limit db_one
   \<and> monthly_trends (get_spending_trends (2023, 7, 10) (2023, 12, 11) dow db_bob)
        \<noteq> monthly_trends (get_spending_trends (2023, 7, 10) (2023, 12, 11) dow db_one)
   \<and> category_trends (get_spending_trends (2023, 7, 10) (2023, 12, 11) dow db_bob)
        \<noteq> category_trends (get_spending_trends (2023, 7, 10) (2023, 12, 11) dow db_one)
   \<and> daily_patterns (get_spending_trends (2023, 7, 10) (2023, 12, 11) dow db_bob)
        \<noteq> daily_patterns (get_spending_trends (2023, 7, 10) (2023, 12, 11) dow db_one)"
proof -
  have spent: "\<exists>rep rep'. get_budget_performance m y db = Inr rep
           \<and> get_budget_performance m y (snd (create_transaction now t user_id db)) = Inr rep'
           \<and> total_spent rep' = total_spent rep + t_amount t"
    if h: "t_type t = EXPENSE \<and> date_month (t_date t) = m \<and> date_year (t_date t) = y \<and> 1000 \<le> y"
  proof -
    let ?db' = "snd (create_transaction now t user_id db)"
    obtain rep where rep: "get_budget_performance m y db = Inr rep"
      and ts: "total_spent rep = sum_list (dict_values (actual_spending_of m y db))"
      using report_total_spent [of m y db] by blast
    obtain rep' where rep': "get_budget_performance m y ?db' = Inr rep'"
      and ts': "total_spent rep' = sum_list (dict_values (actual_spending_of m y ?db'))"
      using report_total_spent [of m y ?db'] by blast
    have "total_spent rep' = total_spent rep + t_amount t"
      unfolding ts ts' using h by (intro total_spent_after_create) simp_all
    then show ?thesis using rep rep' by blast
  qed
  have other: "get_transactions default_user limit db_bob = get_transactions default_user limit db_one"
    unfolding db_bob_def by (rule listing_other_owner) (simp add: default_user_def)
  show ?thesis
    using get_spending_trends_relabel [of c6 c30 dow f db]
      get_budget_performance_relabel [of m y f db] spent
      listing_other_owner [of user_id u limit now t db] other
      db_bob_monthly [of dow] db_bob_category [of dow] db_bob_daily [of dow]
    by (simp add: db_bob_def)
qed

theorem analytics_ignore_owner_witness:
  "\<exists>rep rep'. get_budget_performance 1 2024 db_one = Inr rep
     \<and> get_budget_performance 1 2024 db_bob = Inr rep'
     \<and> total_spent rep = 200 \<and> total_spent rep' = 240
     \<and> get_transactions default_user 100 db_bob = get_transactions default_user 100 db_one"
proof -
  let ?t = "sample_tx EXPENSE ''fun'' 40 (2024, 1, 10)"
  note inst = analytics_ignore_owner
    [of "(2023, 7, 10)" "(2023, 12, 11)" "\<lambda>d. 0" "\<lambda>r. ''''" db_one 1 2024 ?t 6 "''bob''" default_user 100]
  have h: "t_type ?t = EXPENSE \<and> date_month (t_date ?t) = 1 \<and> date_year (t_date ?t) = 2024
      \<and> 1000 \<le> (2024::nat)"
    by (simp add: sample_tx_def date_month_def date_year_def)
  have ne: "''bob'' \<noteq> default_user" by (simp add: default_user_def)
  obtain rep rep' where rep: "get_budget_performance 1 2024 db_one = Inr rep"
    and rep': "get_budget_performance 1 2024 (snd (create_transaction 6 ?t ''bob'' db_one)) = Inr rep'"
    and sp: "total_spent rep' = total_spent rep + t_amount ?t"
    using inst h by blast
  have same: "get_transactions default_user 100 (snd (create_transaction 6 ?t ''bob'' db_one))
      = get_transactions default_user 100 db_one"
    using inst ne by blast
  have "get_budget_performance 1 2024 db_one
      = Inr \<lparr>budget_performance = [], total_budget = 0, total_spent = 200,
             overall_status = ''over_budget''\<rparr>"
    unfolding get_budget_performance_ok actual_spending_of_eq
    by (simp add: budget_dict_of_def get_budget_goals_def db_one_def create_transaction_def Let_def
        init_database_def dict_of_def dict_values_def actual_spending_query_def period_expenses_def
        group_by_def sample_tx_def date_month_def date_year_def next_rowid_def)
  then have r: "total_spent rep = 200" using rep by auto
  then have r': "total_spent rep' = 240" using sp by (simp add: sample_tx_def)
  show ?thesis
    using rep rep' r r' same unfolding db_bob_def by blast
qed

end
